theory Spec2Isabelle
  imports Complex_Main "HOL-Library.Sublist" "HOL-Library.Multiset"
begin

section \<open>Conversation context (\<open>add_context\<close>, \<open>intelligent_ai_engine.py\<close> lines 47-60)\<close>

text \<open>
  The engine keeps \<open>self.conversation_context\<close>, a Python list of dicts. \<open>add_context\<close>
  builds one dict from its arguments (the result list enters only through its length),
  appends it, and pops index 0 when the list has become longer than 10. The \<open>results\<close>
  argument is kept polymorphic: only \<open>len(results)\<close> is read.
\<close>

record conversation_turn =
  ct_user_query :: string
  ct_jql :: string
  ct_result_count :: nat
  ct_response :: string
  ct_timestamp :: string

definition make_context :: "string \<Rightarrow> string \<Rightarrow> 'a list \<Rightarrow> string \<Rightarrow> conversation_turn" where
  "make_context q jql results resp =
     \<lparr>ct_user_query = q, ct_jql = jql, ct_result_count = length results,
      ct_response = resp, ct_timestamp = ''now''\<rparr>"

text \<open>\<open>list.pop(0)\<close> on a non-empty list removes the first element; the guard
  \<open>len(...) > 10\<close> makes the list non-empty there.\<close>

definition append_turn :: "conversation_turn list \<Rightarrow> conversation_turn \<Rightarrow> conversation_turn list" where
  "append_turn conversation_context context =
     (let appended = conversation_context @ [context]
      in if length appended > 10 then tl appended else appended)"

definition add_context ::
  "conversation_turn list \<Rightarrow> string \<Rightarrow> string \<Rightarrow> 'a list \<Rightarrow> string \<Rightarrow> conversation_turn list" where
  "add_context conversation_context q jql results resp =
     append_turn conversation_context (make_context q jql results resp)"

text \<open>The engine starts with \<open>self.conversation_context = []\<close> (line 32); a session is a
  sequence of \<open>add_context\<close> calls on it.\<close>

definition context_after :: "conversation_turn list \<Rightarrow> conversation_turn list" where
  "context_after turns = foldl append_turn [] turns"

text \<open>\<open>_analyze_query\<close>, lines 306-313: \<open>self.conversation_context[-3:]\<close>, read only when
  the list is non-empty (for an empty list the slice is empty as well).\<close>

definition recent_context :: "conversation_turn list \<Rightarrow> conversation_turn list" where
  "recent_context conversation_context =
     drop (length conversation_context - 3) conversation_context"

text \<open>Turn number \<open>n\<close> of a session (its utterance is \<open>n\<close> copies of the letter q, its result
  count is \<open>n\<close>), used to tell the turns 1 to 11 apart.\<close>

definition turn :: "nat \<Rightarrow> conversation_turn" where
  "turn n = \<lparr>ct_user_query = replicate n (CHR ''q''), ct_jql = [], ct_result_count = n,
             ct_response = [], ct_timestamp = ''now''\<rparr>"

section \<open>Strings\<close>

text \<open>
  Python strings are modelled as \<open>string\<close> (lists of 8-bit characters) and are taken to be
  ASCII text: \<open>str.lower()\<close> maps the letters A-Z to a-z and leaves every other character
  alone, and \<open>sub in s\<close> is the contiguous-sublist test \<open>sublist sub s\<close>.
\<close>

definition lower_char :: "char \<Rightarrow> char" where
  "lower_char c =
     (case map_of (zip ''ABCDEFGHIJKLMNOPQRSTUVWXYZ'' ''abcdefghijklmnopqrstuvwxyz'') c of
        Some d \<Rightarrow> d
      | None \<Rightarrow> c)"

definition lower :: "string \<Rightarrow> string" where
  "lower s = map lower_char s"

text \<open>\<open>any(keyword in s for keyword in keywords)\<close>\<close>

definition any_in :: "string list \<Rightarrow> string \<Rightarrow> bool" where
  "any_in keywords s = list_ex (\<lambda>keyword. sublist keyword s) keywords"

text \<open>\<open>str(n)\<close> for a Python int: decimal digits, with a minus sign for negatives.
  \<open>digit_char\<close> is only applied to numbers below 10.\<close>

definition digit_char :: "nat \<Rightarrow> char" where
  "digit_char d = ''0123456789'' ! d"

fun str_nat :: "nat \<Rightarrow> string" where
  "str_nat n = (if n < 10 then [digit_char n] else str_nat (n div 10) @ [digit_char (n mod 10)])"

declare str_nat.simps [simp del]

definition str_int :: "int \<Rightarrow> string" where
  "str_int i = (if i < 0 then CHR ''-'' # str_nat (nat (- i)) else str_nat (nat i))"


section \<open>Tracker records and the remote search (\<open>jira_client.py\<close> lines 52-89)\<close>

text \<open>
  A tracker item is the JSON object the search endpoint returns. Only the entries the engine
  reads are kept, and an entry that is present holds a value of the expected JSON type.
  For \<open>key\<close>, \<open>fields\<close>, \<open>summary\<close>, \<open>name\<close> and \<open>displayName\<close>, \<open>None\<close> is an absent entry
  (for \<open>fields\<close> also an empty object). For the nested objects \<open>status\<close>, \<open>issuetype\<close>,
  \<open>priority\<close>, \<open>assignee\<close> and \<open>reporter\<close>, \<open>None\<close> is an entry that is absent, \<open>null\<close> or an
  empty object: the engine reads them through a truthiness test, which treats the three
  alike.
\<close>

record person =
  displayName :: "string option"

record named =
  name :: "string option"

record issue_fields =
  summary :: "string option"
  status :: "named option"
  issuetype :: "named option"
  priority :: "named option"
  assignee :: "person option"
  reporter :: "person option"

record issue =
  key :: "string option"
  item_fields :: "issue_fields option"

text \<open>The message of a raised exception, \<open>str(e)\<close>.\<close>

type_synonym exc = string

text \<open>The arguments of one \<open>jira_client.search(jql, max_results, fields, start_at)\<close> call.\<close>

record request =
  rq_jql :: string
  max_results :: nat
  rq_fields :: "string list option"
  start_at :: nat

text \<open>
  What a \<open>search\<close> call gives back, by the shape \<open>_execute_jql\<close> tests for: a dict (with its
  \<open>'issues'\<close> and \<open>'total'\<close> entries when present), a list of items, or anything else. A client
  is a function from the request to either the exception it raises (\<open>Inl\<close>) or its return
  value (\<open>Inr\<close>). Within one \<open>_execute_jql\<close> call no request is issued twice (the offsets
  increase), so a function of the request also covers a remote whose answers depend on the
  order of the calls.
\<close>

datatype search_result =
    DictResult "issue list option" "int option"
  | ListResult "issue list"
  | OtherResult

type_synonym client = "request \<Rightarrow> exc + search_result"

text \<open>
  \<open>JiraClient.search\<close>: the HTTP GET either raises or returns a response with a status code
  and a body; \<open>resp.json()\<close> either raises or yields the parsed JSON. Everything after the
  client initialisation is inside \<open>try\<close>; the \<open>except Exception\<close> branch and the non-200 branch
  both return \<open>{"issues": [], "total": 0}\<close>. On status 200 the log line calls \<open>data.get\<close>,
  which raises for a body that is not a JSON object, so only a dict is ever returned.
\<close>

record http_response =
  status_code :: nat
  json :: "exc + search_result"

type_synonym transport = "request \<Rightarrow> exc + http_response"

definition empty_page :: search_result where
  "empty_page = DictResult (Some []) (Some 0)"

definition JiraClient_search :: "transport \<Rightarrow> client" where
  "JiraClient_search http_get rq =
     (case http_get rq of
        Inl e \<Rightarrow> Inr empty_page
      | Inr resp \<Rightarrow>
          if status_code resp = 200 then
            (case json resp of
               Inl e \<Rightarrow> Inr empty_page
             | Inr (DictResult issues tot) \<Rightarrow> Inr (DictResult issues tot)
             | Inr (ListResult xs) \<Rightarrow> Inr empty_page
             | Inr OtherResult \<Rightarrow> Inr empty_page)
          else Inr empty_page)"

section \<open>Executing one query (\<open>_execute_jql\<close>, lines 446-575)\<close>

record jql_result =
  results :: "issue list"
  total_count :: int
  retrieved_count :: nat
  is_count_only :: bool
  error :: "string option"

text \<open>Lines 454-460. \<open>query_intent\<close> defaults to \<open>None\<close>.\<close>

definition is_count_only_query :: "string option \<Rightarrow> string \<Rightarrow> bool" where
  "is_count_only_query query_intent jql \<longleftrightarrow>
     query_intent = Some ''count_items'' \<or>
     query_intent = Some ''story_count'' \<or>
     query_intent = Some ''issue_count'' \<or>
     sublist ''count'' (lower jql) \<or>
     sublist ''group by'' (lower jql)"

text \<open>\<open>search(jql, max_results=0)\<close>: \<open>fields\<close> and \<open>start_at\<close> take their defaults.\<close>

definition count_request :: "string \<Rightarrow> request" where
  "count_request jql = \<lparr>rq_jql = jql, max_results = 0, rq_fields = None, start_at = 0\<rparr>"

definition enhanced_fields :: "string list" where
  "enhanced_fields =
     [''key'', ''summary'', ''status'', ''assignee'', ''priority'', ''issuetype'',
      ''project'', ''created'', ''updated'', ''description'', ''reporter'',
      ''labels'', ''components'', ''fixVersions'', ''duedate'']"

definition max_results_per_page :: nat where
  "max_results_per_page = 100"

definition page_request :: "string \<Rightarrow> nat \<Rightarrow> request" where
  "page_request jql offset =
     \<lparr>rq_jql = jql, max_results = max_results_per_page,
      rq_fields = Some enhanced_fields, start_at = offset\<rparr>"

text \<open>\<open>search_result.get('total', 0)\<close>\<close>

definition get_total :: "int option \<Rightarrow> int" where
  "get_total tot = (case tot of None \<Rightarrow> 0 | Some t \<Rightarrow> t)"

text \<open>Lines 513-514: the total is taken from the response only while it is still \<open>None\<close>.\<close>

definition first_total :: "int option \<Rightarrow> int option \<Rightarrow> int" where
  "first_total total_count_from_api tot =
     (case total_count_from_api of None \<Rightarrow> get_total tot | Some t \<Rightarrow> t)"

text \<open>
  The measure under which the loop below ends: the distance from the offset to the total
  fixed by the first page. The loop goes on only while \<open>offset + len(issues)\<close> is below
  that total and the page is full, so the distance shrinks by at least 100 in every round.
\<close>

definition remaining :: "client \<Rightarrow> string \<Rightarrow> nat \<Rightarrow> int option \<Rightarrow> nat" where
  "remaining search jql offset total_count_from_api =
     (case search (page_request jql offset) of
        Inr (DictResult issues tot) \<Rightarrow> nat (first_total total_count_from_api tot - int offset)
      | _ \<Rightarrow> 0)"

text \<open>
  The \<open>while True\<close> loop of lines 501-538. The state is \<open>start_at\<close> (here \<open>offset\<close>),
  \<open>total_count_from_api\<close> and \<open>all_issues\<close>; \<open>reqs\<close> records the requests issued so far. The
  result is the request log together with either the exception that left the loop or the
  final \<open>all_issues\<close> and \<open>total_count_from_api\<close>.
\<close>

function fetch_loop ::
  "client \<Rightarrow> string \<Rightarrow> nat \<Rightarrow> int option \<Rightarrow> issue list \<Rightarrow> request list
   \<Rightarrow> request list \<times> (exc + issue list \<times> int option)" where
  "fetch_loop search jql offset total_count_from_api all_issues reqs =
     (case search (page_request jql offset) of
        Inl e \<Rightarrow> (reqs @ [page_request jql offset], Inl e)
      | Inr (DictResult None tot) \<Rightarrow>
          (reqs @ [page_request jql offset], Inr (all_issues, total_count_from_api))
      | Inr (DictResult (Some issues) tot) \<Rightarrow>
          (if issues = [] then
             (reqs @ [page_request jql offset],
              Inr (all_issues, Some (first_total total_count_from_api tot)))
           else if \<not> (int offset + int (length issues) < first_total total_count_from_api tot)
                   \<or> length issues < max_results_per_page then
             (reqs @ [page_request jql offset],
              Inr (all_issues @ issues, Some (first_total total_count_from_api tot)))
           else
             fetch_loop search jql (offset + max_results_per_page)
               (Some (first_total total_count_from_api tot)) (all_issues @ issues)
               (reqs @ [page_request jql offset]))
      | Inr (ListResult issues) \<Rightarrow>
          (if issues = [] then
             (reqs @ [page_request jql offset], Inr (all_issues, Some (int (length issues))))
           else
             (reqs @ [page_request jql offset],
              Inr (all_issues @ issues, Some (int (length issues)))))
      | Inr OtherResult \<Rightarrow>
          (reqs @ [page_request jql offset], Inr (all_issues, total_count_from_api)))"
  by pat_completeness auto

termination fetch_loop
proof (relation "measure (\<lambda>(search, jql, offset, total_count_from_api, all_issues, reqs).
                   remaining search jql offset total_count_from_api)")
  show "wf (measure (\<lambda>(search, jql, offset, total_count_from_api, all_issues, reqs).
                   remaining search jql offset total_count_from_api))"
    by simp
next
  fix search :: client and jql :: string and offset :: nat
    and total_count_from_api :: "int option" and all_issues reqs
    and b x21 x22 a
  assume r: "search (page_request jql offset) = Inr b" "b = DictResult x21 x22" "x21 = Some a"
    and ne: "a \<noteq> []"
    and go: "\<not> (\<not> int offset + int (length a) < first_total total_count_from_api x22
              \<or> length a < max_results_per_page)"
  let ?T = "first_total total_count_from_api x22"
  have here: "remaining search jql offset total_count_from_api = nat (?T - int offset)"
    using r by (simp add: remaining_def)
  have step: "remaining search jql (offset + max_results_per_page) (Some ?T)
          \<le> nat (?T - int (offset + max_results_per_page))"
    by (simp add: remaining_def first_total_def split: sum.splits search_result.splits)
  have less: "nat (?T - int (offset + max_results_per_page)) < nat (?T - int offset)"
    using go by (simp add: max_results_per_page_def)
  have "remaining search jql (offset + max_results_per_page) (Some ?T)
          < remaining search jql offset total_count_from_api"
    using step less here by linarith
  then show "((search, jql, offset + max_results_per_page, Some ?T, all_issues @ a,
                     reqs @ [page_request jql offset]),
                    (search, jql, offset, total_count_from_api, all_issues, reqs))
                   \<in> measure (\<lambda>(search, jql, offset, total_count_from_api, all_issues, reqs).
                        remaining search jql offset total_count_from_api)"
    by simp
qed

declare fetch_loop.simps [simp del]

text \<open>Lines 543-554: an item is skipped when its key is missing (or literally \<open>UNKNOWN\<close>)
  and its summary is missing or empty.\<close>

definition get_key :: "issue \<Rightarrow> string" where
  "get_key item = (case key item of None \<Rightarrow> ''UNKNOWN'' | Some k \<Rightarrow> k)"

definition filter_summary :: "issue \<Rightarrow> string" where
  "filter_summary item =
     (case item_fields item of
        None \<Rightarrow> []
      | Some f \<Rightarrow> (case summary f of None \<Rightarrow> [] | Some s \<Rightarrow> s))"

definition has_essential_data :: "issue \<Rightarrow> bool" where
  "has_essential_data item \<longleftrightarrow> \<not> (get_key item = ''UNKNOWN'' \<and> filter_summary item = [])"

text \<open>Lines 569-575, the \<open>except Exception\<close> branch.\<close>

definition error_result :: "exc \<Rightarrow> jql_result" where
  "error_result e =
     \<lparr>results = [], total_count = 0, retrieved_count = 0, is_count_only = False,
      error = Some e\<rparr>"

text \<open>\<open>total_count_from_api or len(filtered_results)\<close>: \<open>None\<close> and \<open>0\<close> are both falsy.\<close>

definition total_or_len :: "int option \<Rightarrow> nat \<Rightarrow> int" where
  "total_or_len total_count_from_api n =
     (case total_count_from_api of
        None \<Rightarrow> int n
      | Some t \<Rightarrow> if t = 0 then int n else t)"

text \<open>\<open>_execute_jql\<close> itself, returning the requests it issued and its result dict. The
  whole body is inside \<open>try\<close>, so an exception of the client ends in \<open>error_result\<close>.\<close>

definition execute_jql :: "client \<Rightarrow> string \<Rightarrow> string option \<Rightarrow> request list \<times> jql_result" where
  "execute_jql search jql query_intent =
     (if is_count_only_query query_intent jql then
        (case search (count_request jql) of
           Inl e \<Rightarrow> ([count_request jql], error_result e)
         | Inr (DictResult issues tot) \<Rightarrow>
             ([count_request jql],
              \<lparr>results = [], total_count = get_total tot, retrieved_count = 0,
               is_count_only = True, error = None\<rparr>)
         | Inr other \<Rightarrow>
             ([count_request jql],
              \<lparr>results = [], total_count = 0, retrieved_count = 0,
               is_count_only = True, error = None\<rparr>))
      else
        (case fetch_loop search jql 0 None [] [] of
           (reqs, Inl e) \<Rightarrow> (reqs, error_result e)
         | (reqs, Inr (all_issues, total_count_from_api)) \<Rightarrow>
             (reqs,
              \<lparr>results = filter has_essential_data all_issues,
               total_count =
                 total_or_len total_count_from_api (length (filter has_essential_data all_issues)),
               retrieved_count = length (filter has_essential_data all_issues),
               is_count_only = False, error = None\<rparr>)))"

section \<open>Vocabulary for the pagination claims\<close>

text \<open>
  A search page in the sense of the specification is a dict response that has an \<open>'issues'\<close>
  entry. \<open>page_at\<close> is the record list of the response to the page request at an offset,
  \<open>declared_total\<close> the total that response declares (\<open>0\<close> when it declares none).
\<close>

definition is_search_page :: "exc + search_result \<Rightarrow> bool" where
  "is_search_page r = (case r of Inr (DictResult (Some issues) tot) \<Rightarrow> True | _ \<Rightarrow> False)"

definition page_at :: "client \<Rightarrow> string \<Rightarrow> nat \<Rightarrow> issue list" where
  "page_at search jql offset =
     (case search (page_request jql offset) of
        Inr (DictResult (Some issues) tot) \<Rightarrow> issues
      | _ \<Rightarrow> [])"

definition declared_total :: "client \<Rightarrow> string \<Rightarrow> nat \<Rightarrow> int" where
  "declared_total search jql offset =
     (case search (page_request jql offset) of
        Inr (DictResult issues tot) \<Rightarrow> get_total tot
      | _ \<Rightarrow> 0)"

text \<open>
  The stop condition in the words of the specification: the page is empty, or it has fewer
  than 100 records, or the offset plus the records received has reached the reported total.
\<close>

definition page_stops :: "int \<Rightarrow> nat \<Rightarrow> issue list \<Rightarrow> bool" where
  "page_stops reported_total offset page \<longleftrightarrow>
     page = [] \<or> length page < 100 \<or> reported_total \<le> int offset + int (length page)"

text \<open>The request that \<open>_execute_jql\<close> issues first, in either mode.\<close>

definition first_request :: "string option \<Rightarrow> string \<Rightarrow> request" where
  "first_request query_intent jql =
     (if is_count_only_query query_intent jql then count_request jql else page_request jql 0)"

text \<open>
  The ways a \<open>JiraClient.search\<close> call fails inside: the GET raises, the status is not 200,
  the body does not parse, or the parsed body is not a JSON object.
\<close>

definition search_failed :: "transport \<Rightarrow> request \<Rightarrow> bool" where
  "search_failed http_get rq \<longleftrightarrow>
     (case http_get rq of
        Inl e \<Rightarrow> True
      | Inr resp \<Rightarrow>
          status_code resp \<noteq> 200 \<or>
          (case json resp of
             Inl e \<Rightarrow> True
           | Inr (DictResult issues tot) \<Rightarrow> False
           | Inr other \<Rightarrow> True))"

text \<open>Concrete remotes used in the examples: a paginator that serves 100, 100 and 37
  records and declares 237, a remote that answers a count request with total 42, a
  transport on which every GET raises, and a client whose \<open>search\<close> raises.\<close>

definition mock_issue :: issue where
  "mock_issue = \<lparr>key = Some ''CCM-1'', item_fields = None\<rparr>"

definition mock_paginator :: client where
  "mock_paginator rq =
     (if start_at rq = 0 then Inr (DictResult (Some (replicate 100 mock_issue)) (Some 237))
      else if start_at rq = 100 then Inr (DictResult (Some (replicate 100 mock_issue)) (Some 237))
      else Inr (DictResult (Some (replicate 37 mock_issue)) (Some 237)))"

definition count_mock :: client where
  "count_mock rq = Inr (DictResult None (Some 42))"

text \<open>A remote whose page holds two records and declares the total 0.\<close>

definition zero_total_remote :: client where
  "zero_total_remote rq = Inr (DictResult (Some [mock_issue, mock_issue]) (Some 0))"

definition failing_transport :: transport where
  "failing_transport rq = Inl ''ConnectTimeout''"

definition raising_client :: client where
  "raising_client rq = Inl ''ConnectTimeout''"

section \<open>The engine and the routing of \<open>process_query\<close> (lines 28-45 and 62-130)\<close>

text \<open>
  \<open>__init__\<close> creates the OpenAI client only when the environment holds an API key that is
  non-empty and does not start with the placeholder prefix; otherwise \<open>self.client\<close> is
  \<open>None\<close>. For routing only the truthiness of \<open>self.client\<close> and \<open>self.confluence_client\<close>
  matters, so the engine is the pair of these two facts.
\<close>

definition client_configured :: "string option \<Rightarrow> bool" where
  "client_configured api_key \<longleftrightarrow>
     (case api_key of
        None \<Rightarrow> False
      | Some k \<Rightarrow> k \<noteq> [] \<and> \<not> prefix ''sk-your-actual'' k)"

record engine =
  client :: bool
  confluence_client :: bool

definition init_engine :: "string option \<Rightarrow> bool \<Rightarrow> engine" where
  "init_engine api_key confluence =
     \<lparr>client = client_configured api_key, confluence_client = confluence\<rparr>"

definition confluence_keywords :: "string list" where
  "confluence_keywords =
     [''confluence'', ''documentation'', ''wiki'', ''page'', ''article'', ''knowledge base'',
      ''doc'', ''guide'', ''manual'', ''tutorial'']"

definition jira_keywords :: "string list" where
  "jira_keywords =
     [''issue'', ''bug'', ''task'', ''story'', ''epic'', ''sprint'', ''ticket'', ''jira'',
      ''assignee'', ''reporter'', ''status'', ''priority'']"

definition confluence_priority_keywords :: "string list" where
  "confluence_priority_keywords =
     [''confluence'', ''wiki'', ''document'', ''insurance'', ''eligibility'', ''entertainment'',
      ''partners'', ''lab'', ''results'', ''emr'', ''careexpand'']"

definition confluence_check_phrases :: "string list" where
  "confluence_check_phrases =
     [''check in confluence'', ''check confluence'', ''look in confluence'',
      ''search confluence'', ''check wiki'', ''look in wiki'', ''search wiki'',
      ''check documentation'', ''look in documentation'', ''search documentation'',
      ''check docs'', ''look in docs'', ''search docs'']"

definition document_terms :: "string list" where
  "document_terms =
     [''results'', ''report'', ''analysis'', ''findings'', ''study'', ''research'', ''data'',
      ''information'', ''content'']"

definition confluence_patterns :: "string list" where
  "confluence_patterns =
     [''view lab results'', ''lab results'', ''test results'', ''analysis results'',
      ''project overview'', ''documentation'', ''how to'', ''getting started'',
      ''user guide'', ''api documentation'', ''technical specs'']"

definition has_confluence_priority :: "string \<Rightarrow> bool" where
  "has_confluence_priority user_query = any_in confluence_priority_keywords (lower user_query)"

text \<open>Lines 111-117.\<close>

definition should_search_confluence_first :: "string \<Rightarrow> bool" where
  "should_search_confluence_first user_query =
     (let query_lower = lower user_query;
          is_confluence_query = any_in confluence_keywords query_lower;
          is_jira_query = any_in jira_keywords query_lower;
          has_confluence_check = any_in confluence_check_phrases query_lower;
          has_document_terms = any_in document_terms query_lower;
          has_confluence_pattern = any_in confluence_patterns query_lower
      in has_confluence_priority user_query \<or>
         has_confluence_check \<or>
         is_confluence_query \<or>
         (has_confluence_pattern \<and> \<not> is_jira_query) \<or>
         (has_document_terms \<and> \<not> is_jira_query \<and> \<not> sublist ''='' query_lower
            \<and> \<not> sublist ''-'' query_lower))"

text \<open>
  The three ways \<open>process_query\<close> can go: line 73 returns \<open>_fallback_processing\<close> (the
  deterministic tracker path); line 137 searches the document store first; otherwise the
  \<open>try\<close> block of line 203 analyses the query and runs it against the tracker.
\<close>

datatype route = FallbackProcessing | ConfluenceFirst | JiraAnalysis

definition process_query_route :: "engine \<Rightarrow> string \<Rightarrow> route" where
  "process_query_route self user_query =
     (if \<not> client self then FallbackProcessing
      else if should_search_confluence_first user_query \<and> confluence_client self
           then ConfluenceFirst
      else JiraAnalysis)"

text \<open>
  The document store is searched only inside \<open>_process_confluence_query\<close> (lines 1325-1344),
  and that function is called only at line 137, on the document-first route.
\<close>

definition searches_documents :: "route \<Rightarrow> bool" where
  "searches_documents r \<longleftrightarrow> r = ConfluenceFirst"

section \<open>The deterministic query builders (lines 419-444 and 802-902)\<close>



definition is_letter :: "char \<Rightarrow> bool" where
  "is_letter c \<longleftrightarrow> c \<in> set ''ABCDEFGHIJKLMNOPQRSTUVWXYZabcdefghijklmnopqrstuvwxyz''"

definition is_digit :: "char \<Rightarrow> bool" where
  "is_digit c \<longleftrightarrow> c \<in> set ''0123456789''"







text \<open>
  \<open>_fallback_processing\<close> (lines 802-902), the path taken when no external client is
  configured. \<open>projects\<close> is what \<open>jira_client.get_projects()\<close> returned, each project a dict
  read through \<open>.get('key', '')\<close>.
\<close>

record project =
  project_key :: "string option"

















section \<open>Vocabulary for the ticket-key claim\<close>



section \<open>Summarising a record set (\<open>_create_detailed_analysis\<close>, lines 971-1135)\<close>

text \<open>\<open>item.get('fields', {})\<close>: an item without fields reads as one whose fields are all
  absent.\<close>

definition get_fields :: "issue \<Rightarrow> issue_fields" where
  "get_fields item =
     (case item_fields item of
        None \<Rightarrow> \<lparr>summary = None, status = None, issuetype = None, priority = None,
                 assignee = None, reporter = None\<rparr>
      | Some f \<Rightarrow> f)"

text \<open>\<open>fields.get(x, {}).get('name', 'Unknown') if fields.get(x) else 'Unknown'\<close> and its
  \<open>displayName\<close> counterpart with the default given.\<close>

definition get_name :: "named option \<Rightarrow> string" where
  "get_name d =
     (case d of
        None \<Rightarrow> ''Unknown''
      | Some n \<Rightarrow> (case name n of None \<Rightarrow> ''Unknown'' | Some s \<Rightarrow> s))"

definition get_display_name :: "person option \<Rightarrow> string \<Rightarrow> string" where
  "get_display_name p dflt =
     (case p of
        None \<Rightarrow> dflt
      | Some q \<Rightarrow> (case displayName q of None \<Rightarrow> dflt | Some s \<Rightarrow> s))"

definition item_status :: "issue \<Rightarrow> string" where
  "item_status item = get_name (status (get_fields item))"

definition item_type :: "issue \<Rightarrow> string" where
  "item_type item = get_name (issuetype (get_fields item))"

definition item_priority :: "issue \<Rightarrow> string" where
  "item_priority item = get_name (priority (get_fields item))"

definition item_assignee :: "issue \<Rightarrow> string" where
  "item_assignee item = get_display_name (assignee (get_fields item)) ''Unassigned''"

definition item_reporter :: "issue \<Rightarrow> string" where
  "item_reporter item = get_display_name (reporter (get_fields item)) ''Unknown''"

text \<open>
  A breakdown is a Python dict from a category to its count. Dicts keep insertion order
  and the summary sorts them with a stable sort, so a breakdown is an association list in
  insertion order. \<open>count_up\<close> is the step \<open>if k not in d: d[k] = 0; d[k] += 1\<close>.
\<close>

fun count_up :: "(string \<times> nat) list \<Rightarrow> string \<Rightarrow> (string \<times> nat) list" where
  "count_up [] k = [(k, 1)]"
| "count_up ((k', n) # d) k = (if k' = k then (k', n + 1) # d else (k', n) # count_up d k)"

definition count_by :: "(issue \<Rightarrow> string) \<Rightarrow> issue list \<Rightarrow> (string \<times> nat) list" where
  "count_by category items = foldl (\<lambda>d item. count_up d (category item)) [] items"

record analysis =
  total_items :: int
  retrieved_items :: int
  by_assignee :: "(string \<times> nat) list"
  by_reporter :: "(string \<times> nat) list"
  by_status :: "(string \<times> nat) list"
  by_type :: "(string \<times> nat) list"
  by_priority :: "(string \<times> nat) list"

text \<open>Lines 977-978: a count that was not passed falls back to \<open>len(results)\<close>.\<close>

definition actual_count :: "int option \<Rightarrow> issue list \<Rightarrow> int" where
  "actual_count given items = (case given of None \<Rightarrow> int (length items) | Some c \<Rightarrow> c)"

text \<open>The \<open>analysis\<close> dict after the loop of lines 995-1091, without the month buckets (they
  need the parsing of timestamps) and the item list.\<close>

definition analyse :: "issue list \<Rightarrow> int option \<Rightarrow> int option \<Rightarrow> analysis" where
  "analyse items given_total given_retrieved =
     \<lparr>total_items = actual_count given_total items,
      retrieved_items = actual_count given_retrieved items,
      by_assignee = count_by item_assignee items,
      by_reporter = count_by item_reporter items,
      by_status = count_by item_status items,
      by_type = count_by item_type items,
      by_priority = count_by item_priority items\<rparr>"

text \<open>Lines 1102-1105, the two statements about completeness.\<close>

definition complete_statement :: "int \<Rightarrow> string" where
  "complete_statement n =
     ''Found '' @ str_int n @ '' total items (complete dataset analyzed):''"

definition partial_statement :: "int \<Rightarrow> int \<Rightarrow> string" where
  "partial_statement r n =
     ''Showing segregations for '' @ str_int r @ '' issues (out of ''
       @ str_int n @ '' total).''"

definition count_statement :: "analysis \<Rightarrow> string" where
  "count_statement a =
     (if total_items a = retrieved_items a then complete_statement (total_items a)
      else partial_statement (retrieved_items a) (total_items a))"

text \<open>\<open>sorted(d.items(), key=lambda x: x[1], reverse=True)\<close>: descending by count, and
  stable, so equal counts stay in insertion order.\<close>

definition by_count_desc :: "(string \<times> nat) list \<Rightarrow> (string \<times> nat) list" where
  "by_count_desc d = sort_key (\<lambda>x. - int (snd x)) d"

text \<open>One breakdown section (lines 1108-1135): nothing for an empty dict, else the title
  and one line per category.\<close>

definition breakdown_section :: "string \<Rightarrow> string \<Rightarrow> (string \<times> nat) list \<Rightarrow> string list" where
  "breakdown_section title unit d =
     (if d = [] then []
      else (CHR 0x0A # title)
           # map (\<lambda>(k, n). ''- '' @ k @ '': '' @ str_nat n @ unit) (by_count_desc d))"

text \<open>Lines 1097-1099. The context is the pair of the issue key and the reporter; both
  must be non-empty for the two lines to be added.\<close>

definition context_lines :: "(string \<times> string) option \<Rightarrow> string list" where
  "context_lines specific_issue_context =
     (case specific_issue_context of
        None \<Rightarrow> []
      | Some (issue_key, rep) \<Rightarrow>
          if issue_key \<noteq> [] \<and> rep \<noteq> []
          then [''**'' @ rep @ '' is the reporter of '' @ issue_key @ ''.**'', []]
          else [])"

text \<open>
  The summary parts up to the priority breakdown, before they are joined with newlines.
  The source goes on with the two month breakdowns and the sample items (lines
  1137-1162), which are appended after these parts and are not modelled; each of those
  parts is empty or begins with a newline, a hyphen, a space or a dot. For an empty
  record list the function returns the single text \<open>No items found.\<close> at line 974.
\<close>

definition create_detailed_analysis ::
  "issue list \<Rightarrow> int option \<Rightarrow> int option \<Rightarrow> (string \<times> string) option \<Rightarrow> string list" where
  "create_detailed_analysis items given_total given_retrieved specific_issue_context =
     (if items = [] then [''No items found.'']
      else context_lines specific_issue_context
           @ [count_statement (analyse items given_total given_retrieved)]
           @ breakdown_section ''**Issue Type Breakdown:**'' [] (by_type (analyse items given_total given_retrieved))
           @ breakdown_section ''**Assignee Breakdown:**'' '' items''
               (by_assignee (analyse items given_total given_retrieved))
           @ breakdown_section ''**Reporter Breakdown:**'' '' items''
               (by_reporter (analyse items given_total given_retrieved))
           @ breakdown_section ''**Status Breakdown:**'' [] (by_status (analyse items given_total given_retrieved))
           @ breakdown_section ''**Priority Breakdown:**'' []
               (by_priority (analyse items given_total given_retrieved)))"

text \<open>The count a breakdown holds for a category, \<open>0\<close> for a category it does not have.\<close>

definition tally :: "(string \<times> nat) list \<Rightarrow> string \<Rightarrow> nat" where
  "tally d k = (case map_of d k of None \<Rightarrow> 0 | Some n \<Rightarrow> n)"

text \<open>Three records, two assigned to Alice and one to Bob.\<close>

definition assigned_to :: "string \<Rightarrow> string \<Rightarrow> issue" where
  "assigned_to k who =
     \<lparr>key = Some k,
      item_fields = Some \<lparr>summary = Some ''work'', status = None, issuetype = None,
                          priority = None, assignee = Some \<lparr>displayName = Some who\<rparr>,
                          reporter = None\<rparr>\<rparr>"

definition three_records :: "issue list" where
  "three_records =
     [assigned_to ''CCM-1'' ''Alice'', assigned_to ''CCM-2'' ''Bob'', assigned_to ''CCM-3'' ''Alice'']"

section \<open>Comparison batches (\<open>process_query\<close> lines 208-259, lines 1166-1189 and 1256-1304)\<close>

text \<open>One entry of \<open>all_results\<close>. The dict keys \<open>jql\<close>, \<open>results\<close>, \<open>count\<close>, \<open>retrieved_count\<close>
  and \<open>error\<close> carry a prefix here; \<open>error\<close> is \<open>None\<close> when the entry has no such key.\<close>

record comparison_entry =
  entity :: string
  ce_jql :: string
  ce_results :: "issue list"
  ce_count :: int
  ce_retrieved_count :: nat
  ce_error :: "string option"

text \<open>\<open>query_analysis.get("entities", {}).get(f"entity{i+1}", f"Entity {i+1}")\<close>, the
  entities being a dict from role to name.\<close>

definition entity_label :: "(string \<times> string) list \<Rightarrow> nat \<Rightarrow> string" where
  "entity_label ents i =
     (case map_of ents (''entity'' @ str_nat (i + 1)) of
        Some e \<Rightarrow> e
      | None \<Rightarrow> ''Entity '' @ str_nat (i + 1))"

text \<open>
  The loop of lines 213-240 over the queries of a comparison, for an executor that either
  raises or returns a result dict: the \<open>try\<close> branch copies \<open>results\<close>, \<open>total_count\<close> and
  \<open>retrieved_count\<close> of the result into the entry (and nothing else); the \<open>except\<close> branch
  makes an empty entry that carries \<open>str(e)\<close>.
\<close>

fun comparison_entries ::
  "(string \<Rightarrow> exc + jql_result) \<Rightarrow> (string \<times> string) list \<Rightarrow> nat \<Rightarrow> string list
   \<Rightarrow> comparison_entry list" where
  "comparison_entries exec ents i [] = []"
| "comparison_entries exec ents i (jql # jql_list) =
     (case exec jql of
        Inr jql_result \<Rightarrow>
          \<lparr>entity = entity_label ents i, ce_jql = jql, ce_results = results jql_result,
           ce_count = total_count jql_result,
           ce_retrieved_count = retrieved_count jql_result, ce_error = None\<rparr>
      | Inl e \<Rightarrow>
          \<lparr>entity = entity_label ents i, ce_jql = jql, ce_results = [], ce_count = 0,
           ce_retrieved_count = 0, ce_error = Some e\<rparr>)
     # comparison_entries exec ents (i + 1) jql_list"

text \<open>The executor of the engine is \<open>_execute_jql\<close>, which always returns a result dict.\<close>

definition process_comparison ::
  "client \<Rightarrow> string option \<Rightarrow> (string \<times> string) list \<Rightarrow> string list \<Rightarrow> comparison_entry list" where
  "process_comparison search query_intent ents jql_list =
     comparison_entries (\<lambda>jql. Inr (snd (execute_jql search jql query_intent))) ents 0 jql_list"

text \<open>
  The per-entity data summary of \<open>_generate_comparison_response\<close> (lines 1172-1187), one
  constructor for each of the three texts: \<open>{entity}: Error - {error}\<close> for an entry with a
  non-empty error, \<open>{entity}: {count} items\<close> followed by the detailed analysis for an entry
  with records, \<open>{entity}: 0 items (no data found)\<close> otherwise.
\<close>

datatype entity_summary =
    SummaryError string string
  | SummaryAnalysis string int "string list"
  | SummaryNoData string

definition summarise_entity :: "comparison_entry \<Rightarrow> entity_summary" where
  "summarise_entity result_set =
     (case ce_error result_set of
        Some (c # cs) \<Rightarrow> SummaryError (entity result_set) (c # cs)
      | other \<Rightarrow>
          if ce_results result_set \<noteq> [] then
            SummaryAnalysis (entity result_set) (ce_count result_set)
              (create_detailed_analysis (ce_results result_set) (Some (ce_count result_set))
                 (Some (int (ce_retrieved_count result_set))) None)
          else SummaryNoData (entity result_set))"

definition comparison_summary :: "comparison_entry list \<Rightarrow> entity_summary list" where
  "comparison_summary all_results = map summarise_entity all_results"

text \<open>
  \<open>_fallback_comparison_response\<close> (lines 1256-1304). Its answer is a list of text parts;
  each part is one constructor here, carrying the values the text interpolates:
  the title, an empty line, the heading of the results summary, \<open>- **{entity}**: {count}
  items\<close>, the winner line, the difference line, the tie line, the heading of the insights
  and \<open>- {entity} handles {percentage:.1f}% of the workload\<close>. The percentage is kept as
  the exact quotient; the source computes it in floating point and prints one decimal.
\<close>

datatype response_part =
    Title
  | Blank
  | ResultsSummary
  | EntityItems string int
  | Winner string int
  | Difference int string
  | Tied string string int
  | KeyInsights
  | Workload string rat

text \<open>Lines 1262-1269: the pairs of entity and count, sorted by count, largest first
  (\<open>list.sort\<close> is stable).\<close>

definition entities_data :: "comparison_entry list \<Rightarrow> (string \<times> int) list" where
  "entities_data all_results =
     sort_key (\<lambda>x. - snd x) (map (\<lambda>result_set. (entity result_set, ce_count result_set)) all_results)"

text \<open>Lines 1279-1290.\<close>

definition verdict :: "(string \<times> int) list \<Rightarrow> response_part list" where
  "verdict ranked =
     (case ranked of
        (winner_entity, winner_count) # (runner_up_entity, runner_up_count) # rest \<Rightarrow>
          (if winner_count > runner_up_count then
             [Winner winner_entity winner_count,
              Difference (winner_count - runner_up_count) runner_up_entity]
           else if winner_count = runner_up_count then
             [Tied winner_entity runner_up_entity winner_count]
           else [])
          @ [Blank]
      | other \<Rightarrow> [])"

text \<open>Lines 1294-1298.\<close>

definition workload :: "(string \<times> int) list \<Rightarrow> response_part list" where
  "workload ranked =
     (if sum_list (map snd ranked) > 0
      then map (\<lambda>(e, c). Workload e (of_int c / of_int (sum_list (map snd ranked)) * 100)) ranked
      else [])"

definition fallback_comparison_response :: "comparison_entry list \<Rightarrow> response_part list" where
  "fallback_comparison_response all_results =
     [Title, Blank, ResultsSummary]
     @ map (\<lambda>(e, c). EntityItems e c) (entities_data all_results)
     @ [Blank]
     @ verdict (entities_data all_results)
     @ [KeyInsights]
     @ workload (entities_data all_results)"

text \<open>The parts of an answer by kind.\<close>

fun is_verdict :: "response_part \<Rightarrow> bool" where
  "is_verdict (Winner e c) = True"
| "is_verdict (Difference d e) = True"
| "is_verdict (Tied e f c) = True"
| "is_verdict p = False"

fun is_workload :: "response_part \<Rightarrow> bool" where
  "is_workload (Workload e p) = True"
| "is_workload p = False"

fun is_entity_items :: "response_part \<Rightarrow> bool" where
  "is_entity_items (EntityItems e c) = True"
| "is_entity_items p = False"

text \<open>Example batches: two entities with counts 12 and 7; two with count 0; and the
  two-entity comparison in which the search for the first entity raises while the second
  entity has two records.\<close>

definition counted :: "string \<Rightarrow> int \<Rightarrow> comparison_entry" where
  "counted e c =
     \<lparr>entity = e, ce_jql = [], ce_results = [], ce_count = c, ce_retrieved_count = 0,
      ce_error = None\<rparr>"

definition alice_jql :: string where
  "alice_jql = ''assignee = \"Alice\"''"

definition bob_jql :: string where
  "bob_jql = ''assignee = \"Bob\"''"

text \<open>A remote that caps its pages at 50 records: for the first entity it serves 50 of the
  500 records it declares, for the second all 60 records it declares.\<close>

definition capped_remote :: client where
  "capped_remote rq =
     (if rq_jql rq = alice_jql
      then Inr (DictResult (Some (replicate 50 (assigned_to ''CCM-1'' ''Alice''))) (Some 500))
      else Inr (DictResult (Some (replicate 60 (assigned_to ''CCM-2'' ''Bob''))) (Some 60)))"

definition one_entity_down :: client where
  "one_entity_down rq =
     (if rq_jql rq = alice_jql then Inl ''ConnectTimeout''
      else Inr (DictResult (Some [assigned_to ''CCM-7'' ''Bob'', assigned_to ''CCM-8'' ''Bob''])
                  (Some 2)))"

definition one_entity_down_transport :: transport where
  "one_entity_down_transport rq =
     (if rq_jql rq = alice_jql then Inl ''ConnectTimeout''
      else Inr \<lparr>status_code = 200,
                json = Inr (DictResult
                  (Some [assigned_to ''CCM-7'' ''Bob'', assigned_to ''CCM-8'' ''Bob'']) (Some 2))\<rparr>)"

section \<open>Properties of the conversation context\<close>

lemma tl_is_drop: "tl xs = drop (Suc 0) xs"
  by (cases xs) simp_all

lemma append_turn_window:
  "length ctx \<le> 10 \<Longrightarrow> append_turn ctx t = drop (length ctx + 1 - 10) (ctx @ [t])"
proof (cases "length ctx = 10")
  case True
  then show ?thesis by (simp add: append_turn_def Let_def tl_is_drop)
next
  case False
  assume "length ctx \<le> 10"
  with False have "length ctx < 10" by simp
  then show ?thesis by (simp add: append_turn_def Let_def)
qed

lemma foldl_append_turn_window:
  "length ctx \<le> 10 \<Longrightarrow>
   foldl append_turn ctx ts = drop (length ctx + length ts - 10) (ctx @ ts)"
proof (induction ts arbitrary: ctx)
  case Nil
  then show ?case by simp
next
  case (Cons t ts)
  let ?c = "append_turn ctx t"
  have w: "?c = drop (length ctx + 1 - 10) (ctx @ [t])"
    using Cons.prems by (rule append_turn_window)
  have len: "length ?c \<le> 10"
    using Cons.prems by (simp add: w)
  have "foldl append_turn ?c ts = drop (length ?c + length ts - 10) (?c @ ts)"
    using len by (rule Cons.IH)
  also have "\<dots> = drop (length ctx + length (t # ts) - 10) (ctx @ t # ts)"
  proof (cases "length ctx = 10")
    case True
    have c: "?c = drop (Suc 0) ctx @ [t]" using True by (simp add: w)
    have "drop (length ts) (drop (Suc 0) ctx @ t # ts) = drop (Suc (length ts)) (ctx @ t # ts)"
      using True by (cases ctx) simp_all
    then show ?thesis using True by (simp add: c)
  next
    case False
    with Cons.prems have "length ctx < 10" by simp
    then have c: "?c = ctx @ [t]" by (simp add: w)
    show ?thesis by (simp add: c)
  qed
  finally show ?case by simp
qed

lemma upt_1_12: "[Suc 0..<12] = [1, 2, 3, 4, 5, 6, 7, 8, 9, 10, 11]"
  by (simp add: upt_rec)

lemma upt_2_12: "[2..<12] = [2, 3, 4, 5, 6, 7, 8, 9, 10, 11]"
  by (simp add: upt_rec)

lemma upt_1_11: "[Suc 0..<11] = [1, 2, 3, 4, 5, 6, 7, 8, 9, 10]"
  by (simp add: upt_rec)

lemma upt_2_11: "[2..<11] = [2, 3, 4, 5, 6, 7, 8, 9, 10]"
  by (simp add: upt_rec)

text \<open>
  Claim C9. Starting from the empty context of a fresh engine, after any sequence of
  appended turns the buffer holds at most 10 turns and is exactly the last 10 of them in
  the order they were appended; one \<open>add_context\<close> call on a buffer of at most 10 turns
  appends the new turn and drops only the oldest one when the length has passed 10;
  the recent turns read by \<open>_analyze_query\<close> are the last three of the buffer (all of it
  when it is shorter), in the order of the buffer; after the 11 turns 1..11 the buffer is
  turns 2..11, and the recent turns are turns 9, 10, 11 in that order.
\<close>

theorem conversation_context_bounded_fifo:
  "length (context_after turns) \<le> 10
   \<and> context_after turns = drop (length turns - 10) turns
   \<and> (length ctx \<le> 10 \<longrightarrow>
        length (add_context ctx q jql (rs :: 'a list) resp) \<le> 10
        \<and> add_context ctx q jql rs resp =
            (if length ctx = 10 then tl ctx @ [make_context q jql rs resp]
             else ctx @ [make_context q jql rs resp]))
   \<and> suffix (recent_context ctx) ctx
   \<and> length (recent_context ctx) = min 3 (length ctx)
   \<and> context_after (map turn [1..<12]) = map turn [2..<12]
   \<and> recent_context (context_after (map turn [1..<12])) = [turn 9, turn 10, turn 11]"
proof -
  have win: "context_after ts = drop (length ts - 10) ts" for ts
    unfolding context_after_def using foldl_append_turn_window [of "[]" ts] by simp
  have a: "length (context_after turns) \<le> 10" by (simp add: win)
  have c: "length ctx \<le> 10 \<longrightarrow>
        length (add_context ctx q jql rs resp) \<le> 10
        \<and> add_context ctx q jql rs resp =
            (if length ctx = 10 then tl ctx @ [make_context q jql rs resp]
             else ctx @ [make_context q jql rs resp])"
    by (cases ctx) (auto simp: add_context_def append_turn_def Let_def)
  have d: "context_after (map turn [1..<12]) = map turn [2..<12]"
    by (simp add: win upt_1_12 upt_2_12)
  have e: "recent_context (map turn [2..<12]) = [turn 9, turn 10, turn 11]"
    by (simp add: recent_context_def upt_2_12)
  have f: "suffix (recent_context ctx) ctx"
    unfolding recent_context_def by (rule suffix_drop)
  have g: "length (recent_context ctx) = min 3 (length ctx)"
    by (simp add: recent_context_def)
  show ?thesis using a win c d e f g by simp
qed

theorem conversation_context_bounded_fifo_witness:
  "length (map turn [1..<11]) \<le> 10
   \<and> length (add_context (map turn [1..<11]) ''q'' ''j'' ([] :: nat list) ''r'') \<le> 10
   \<and> add_context (map turn [1..<11]) ''q'' ''j'' ([] :: nat list) ''r''
      = map turn [2..<11] @ [make_context ''q'' ''j'' ([] :: nat list) ''r'']"
proof -
  have l: "length (map turn [1..<11]) \<le> 10" by simp
  have t: "tl (map turn [Suc 0..<11]) = map turn [2..<11]"
    by (simp add: upt_1_11 upt_2_11)
  show ?thesis
    using conversation_context_bounded_fifo
      [of "[]" "map turn [1..<11]" "''q''" "''j''" "[] :: nat list" "''r''"] l t
    by simp
qed

section \<open>Properties of query execution\<close>

lemma fetch_loop_last_request:
  "fst (fetch_loop search jql offset tot acc reqs) \<noteq> [] \<and>
   (snd (fetch_loop search jql offset tot acc reqs) = Inl e
      \<longleftrightarrow> search (last (fst (fetch_loop search jql offset tot acc reqs))) = Inl e)"
proof (induction search jql offset tot acc reqs rule: fetch_loop.induct)
  case (1 search jql offset tot acc reqs)
  show ?case
    apply (subst (1 2 3) fetch_loop.simps)
    using 1
    apply (auto split: sum.splits search_result.splits option.splits)
    done
qed

lemma first_total_declared:
  "search (page_request jql offset) = Inr (DictResult issues t) \<Longrightarrow>
   first_total tot (Some (declared_total search jql offset)) = first_total tot t"
  by (simp add: first_total_def declared_total_def get_total_def split: option.splits)

lemma fetch_loop_pages:
  assumes pages: "\<forall>off. is_search_page (search (page_request jql off))"
  shows "\<exists>m. fetch_loop search jql offset tot acc reqs =
           (reqs @ map (\<lambda>i. page_request jql (offset + 100 * i)) [0..<Suc m],
            Inr (acc @ concat (map (\<lambda>i. page_at search jql (offset + 100 * i)) [0..<Suc m]),
                 Some (first_total tot (Some (declared_total search jql offset)))))
         \<and> (\<forall>i<m. \<not> page_stops (first_total tot (Some (declared_total search jql offset)))
                        (offset + 100 * i) (page_at search jql (offset + 100 * i)))
         \<and> page_stops (first_total tot (Some (declared_total search jql offset)))
                        (offset + 100 * m) (page_at search jql (offset + 100 * m))"
  using pages
proof (induction search jql offset tot acc reqs rule: fetch_loop.induct)
  case (1 search jql offset tot acc reqs)
  from "1.prems" have "is_search_page (search (page_request jql offset))" by blast
  then obtain issues t where r: "search (page_request jql offset) = Inr (DictResult (Some issues) t)"
    by (auto simp: is_search_page_def split: sum.splits search_result.splits option.splits)
  let ?T = "first_total tot t"
  have T: "first_total tot (Some (declared_total search jql offset)) = ?T"
    using r by (rule first_total_declared)
  have pg: "page_at search jql offset = issues"
    using r by (simp add: page_at_def)
  show ?case
  proof (cases "issues = [] \<or> \<not> (int offset + int (length issues) < ?T) \<or> length issues < 100")
    case True
    then have stop: "page_stops ?T offset issues"
      by (auto simp: page_stops_def)
    have "fetch_loop search jql offset tot acc reqs =
            (reqs @ [page_request jql offset], Inr (acc @ issues, Some ?T))"
      using True r by (subst fetch_loop.simps) (auto simp: max_results_per_page_def)
    then show ?thesis
      using stop by (intro exI [of _ 0]) (simp add: T pg)
  next
    case False
    then have go: "issues \<noteq> []"
        "\<not> (\<not> int offset + int (length issues) < ?T \<or> length issues < max_results_per_page)"
      by (auto simp: max_results_per_page_def)
    from False have nostop: "\<not> page_stops ?T offset issues"
      by (auto simp: page_stops_def)
    have unf: "fetch_loop search jql offset tot acc reqs =
            fetch_loop search jql (offset + 100) (Some ?T) (acc @ issues)
              (reqs @ [page_request jql offset])"
      using False r by (subst fetch_loop.simps) (auto simp: max_results_per_page_def)
    have T': "first_total (Some ?T) (Some (declared_total search jql (offset + 100))) = ?T"
      by (simp add: first_total_def)
    from "1.IH" [OF r refl refl go "1.prems"]
    obtain m where
      eq: "fetch_loop search jql (offset + 100) (Some ?T) (acc @ issues)
              (reqs @ [page_request jql offset]) =
           ((reqs @ [page_request jql offset])
              @ map (\<lambda>i. page_request jql (offset + 100 + 100 * i)) [0..<Suc m],
            Inr ((acc @ issues)
                   @ concat (map (\<lambda>i. page_at search jql (offset + 100 + 100 * i)) [0..<Suc m]),
                 Some ?T))"
      and before: "\<forall>i<m. \<not> page_stops ?T (offset + 100 + 100 * i)
                              (page_at search jql (offset + 100 + 100 * i))"
      and last: "page_stops ?T (offset + 100 + 100 * m)
                              (page_at search jql (offset + 100 + 100 * m))"
      unfolding T' max_results_per_page_def by blast
    have shift: "offset + 100 + 100 * i = offset + 100 * Suc i" for i by simp
    have reqs_eq: "map (\<lambda>i. page_request jql (offset + 100 * i)) [0..<Suc (Suc m)] =
          page_request jql offset # map (\<lambda>i. page_request jql (offset + 100 + 100 * i)) [0..<Suc m]"
      by (subst map_upt_Suc) (simp add: shift)
    have pages_eq: "concat (map (\<lambda>i. page_at search jql (offset + 100 * i)) [0..<Suc (Suc m)]) =
          issues @ concat (map (\<lambda>i. page_at search jql (offset + 100 + 100 * i)) [0..<Suc m])"
      by (subst map_upt_Suc) (simp add: shift pg)
    have all: "\<forall>i<Suc m. \<not> page_stops ?T (offset + 100 * i) (page_at search jql (offset + 100 * i))"
    proof (intro allI impI)
      fix i assume "i < Suc m"
      show "\<not> page_stops ?T (offset + 100 * i) (page_at search jql (offset + 100 * i))"
      proof (cases i)
        case 0
        then show ?thesis using nostop pg by simp
      next
        case (Suc j)
        with \<open>i < Suc m\<close> have "j < m" by simp
        with before show ?thesis using Suc by (simp add: shift)
      qed
    qed
    show ?thesis
      apply (rule exI [of _ "Suc m"])
      unfolding T unf eq reqs_eq pages_eq
      using all last by (simp add: shift)
  qed
qed




lemma total_or_len_Some: "total_or_len (Some t) n = (if t = 0 then int n else t)"
  by (simp add: total_or_len_def)

lemma mock_pages: "\<forall>off. is_search_page (mock_paginator (page_request jql off))"
  by (simp add: is_search_page_def mock_paginator_def)

lemma mock_not_count: "\<not> is_count_only_query None ''project = \"CCM\"''"
  by (simp add: is_count_only_query_def lower_def lower_char_def sublist_code)

lemma mock_run:
  "fetch_loop mock_paginator jql 0 None [] [] =
     ([page_request jql 0, page_request jql 100, page_request jql 200],
      Inr (replicate 100 mock_issue @ replicate 100 mock_issue @ replicate 37 mock_issue, Some 237))"
  by (simp add: fetch_loop.simps mock_paginator_def page_request_def first_total_def
        get_total_def max_results_per_page_def)

lemma fetch_loop_first_request:
  "prefix (reqs @ [page_request jql offset]) (fst (fetch_loop search jql offset tot acc reqs))"
proof (induction search jql offset tot acc reqs rule: fetch_loop.induct)
  case (1 search jql offset tot acc reqs)
  show ?case
  proof (cases "\<exists>issues t. search (page_request jql offset) = Inr (DictResult (Some issues) t)
                  \<and> issues \<noteq> []
                  \<and> \<not> (\<not> int offset + int (length issues) < first_total tot t
                        \<or> length issues < max_results_per_page)")
    case True
    then obtain issues t where
      r: "search (page_request jql offset) = Inr (DictResult (Some issues) t)"
      and go: "issues \<noteq> []"
        "\<not> (\<not> int offset + int (length issues) < first_total tot t
            \<or> length issues < max_results_per_page)"
      by blast
    have unf: "fetch_loop search jql offset tot acc reqs =
        fetch_loop search jql (offset + max_results_per_page) (Some (first_total tot t))
          (acc @ issues) (reqs @ [page_request jql offset])"
      using r go by (subst fetch_loop.simps) simp
    from "1.IH" [OF r refl refl go]
    have "prefix ((reqs @ [page_request jql offset])
                    @ [page_request jql (offset + max_results_per_page)])
            (fst (fetch_loop search jql offset tot acc reqs))"
      unfolding unf .
    then show ?thesis by (rule append_prefixD)
  next
    case False
    then have "fst (fetch_loop search jql offset tot acc reqs) = reqs @ [page_request jql offset]"
      by (subst fetch_loop.simps)
         (auto split: sum.splits search_result.splits option.splits)
    then show ?thesis by simp
  qed
qed

lemma execute_jql_requests:
  "fst (execute_jql search jql query_intent) =
     (if is_count_only_query query_intent jql then [count_request jql]
      else fst (fetch_loop search jql 0 None [] []))"
  by (auto simp: execute_jql_def split: prod.splits sum.splits search_result.splits)

lemma JiraClient_search_returns:
  "\<exists>issues tot. JiraClient_search http_get rq = Inr (DictResult issues tot)"
  by (auto simp: JiraClient_search_def empty_page_def split: sum.splits search_result.splits)

lemma JiraClient_search_failed:
  "search_failed http_get rq \<Longrightarrow> JiraClient_search http_get rq = Inr (DictResult (Some []) (Some 0))"
  by (auto simp: JiraClient_search_def search_failed_def empty_page_def
           split: sum.splits search_result.splits)

lemma execute_jql_error:
  "(search (last (fst (execute_jql search jql query_intent))) = Inl e)
     = (snd (execute_jql search jql query_intent) = error_result e)"
proof (cases "is_count_only_query query_intent jql")
  case True
  then show ?thesis
    by (auto simp: execute_jql_def error_result_def split: sum.splits search_result.splits)
next
  case False
  obtain reqs out where f: "fetch_loop search jql 0 None [] [] = (reqs, out)"
    by (cases "fetch_loop search jql 0 None [] []")
  from fetch_loop_last_request [of search jql 0 None "[]" "[]" e]
  have l: "(out = Inl e) = (search (last reqs) = Inl e)"
    by (simp add: f)
  show ?thesis
    using False l
    by (cases out) (auto simp: execute_jql_def f error_result_def split: prod.splits)
qed

lemma fetch_loop_offsets:
  "\<exists>m. fst (fetch_loop search jql offset tot acc reqs) =
         reqs @ map (\<lambda>i. page_request jql (offset + 100 * i)) [0..<Suc m]"
proof (induction search jql offset tot acc reqs rule: fetch_loop.induct)
  case (1 search jql offset tot acc reqs)
  show ?case
  proof (cases "\<exists>issues t. search (page_request jql offset) = Inr (DictResult (Some issues) t)
                  \<and> issues \<noteq> []
                  \<and> \<not> (\<not> int offset + int (length issues) < first_total tot t
                        \<or> length issues < max_results_per_page)")
    case True
    then obtain issues t where
      r: "search (page_request jql offset) = Inr (DictResult (Some issues) t)"
      and go: "issues \<noteq> []"
        "\<not> (\<not> int offset + int (length issues) < first_total tot t
            \<or> length issues < max_results_per_page)"
      by blast
    have unf: "fetch_loop search jql offset tot acc reqs =
        fetch_loop search jql (offset + max_results_per_page) (Some (first_total tot t))
          (acc @ issues) (reqs @ [page_request jql offset])"
      using r go by (subst fetch_loop.simps) simp
    from "1.IH" [OF r refl refl go]
    obtain m where m: "fst (fetch_loop search jql offset tot acc reqs) =
        (reqs @ [page_request jql offset])
          @ map (\<lambda>i. page_request jql (offset + 100 + 100 * i)) [0..<Suc m]"
      unfolding unf max_results_per_page_def by blast
    have "map (\<lambda>i. page_request jql (offset + 100 * i)) [0..<Suc (Suc m)] =
          page_request jql offset # map (\<lambda>i. page_request jql (offset + 100 + 100 * i)) [0..<Suc m]"
      by (subst map_upt_Suc) (simp add: add.assoc)
    then show ?thesis
      unfolding m by (intro exI [of _ "Suc m"]) simp
  next
    case False
    then have "fst (fetch_loop search jql offset tot acc reqs) = reqs @ [page_request jql offset]"
      by (subst fetch_loop.simps)
         (auto split: sum.splits search_result.splits option.splits)
    then show ?thesis by (intro exI [of _ 0]) simp
  qed
qed

lemma full_fetch_requests:
  assumes "\<not> is_count_only_query query_intent jql"
  shows "0 < length (fst (execute_jql search jql query_intent))
    \<and> fst (execute_jql search jql query_intent) =
        map (\<lambda>k. page_request jql (100 * k)) [0..<length (fst (execute_jql search jql query_intent))]"
proof -
  obtain m where "fst (fetch_loop search jql 0 None [] []) =
         [] @ map (\<lambda>i. page_request jql (0 + 100 * i)) [0..<Suc m]"
    using fetch_loop_offsets by blast
  then have "fst (execute_jql search jql query_intent) = map (\<lambda>i. page_request jql (100 * i)) [0..<Suc m]"
    using assms by (simp add: execute_jql_requests)
  then show ?thesis by simp
qed

lemma full_fetch_pages:
  assumes full: "\<not> is_count_only_query query_intent jql"
    and pages: "\<forall>off. is_search_page (search (page_request jql off))"
  shows "0 < length (fst (execute_jql search jql query_intent))
    \<and> fst (execute_jql search jql query_intent) =
        map (\<lambda>k. page_request jql (100 * k)) [0..<length (fst (execute_jql search jql query_intent))]
    \<and> map max_results (fst (execute_jql search jql query_intent)) =
        replicate (length (fst (execute_jql search jql query_intent))) 100
    \<and> map start_at (fst (execute_jql search jql query_intent)) =
        map (\<lambda>k. 100 * k) [0..<length (fst (execute_jql search jql query_intent))]
    \<and> (\<forall>k < length (fst (execute_jql search jql query_intent)).
          page_stops (declared_total search jql 0) (100 * k) (page_at search jql (100 * k))
          \<longleftrightarrow> Suc k = length (fst (execute_jql search jql query_intent)))
    \<and> results (snd (execute_jql search jql query_intent)) =
        filter has_essential_data
          (concat (map (\<lambda>k. page_at search jql (100 * k))
                     [0..<length (fst (execute_jql search jql query_intent))]))
    \<and> retrieved_count (snd (execute_jql search jql query_intent)) =
        length (results (snd (execute_jql search jql query_intent)))
    \<and> total_count (snd (execute_jql search jql query_intent)) =
        (if declared_total search jql 0 = 0
         then int (retrieved_count (snd (execute_jql search jql query_intent)))
         else declared_total search jql 0)
    \<and> \<not> is_count_only (snd (execute_jql search jql query_intent))
    \<and> error (snd (execute_jql search jql query_intent)) = None"
proof -
  let ?T = "declared_total search jql 0"
  have T0: "first_total None (Some ?T) = ?T"
    by (simp add: first_total_def get_total_def)
  from fetch_loop_pages [OF pages, of 0 None "[]" "[]"]
  obtain m where
    eq: "fetch_loop search jql 0 None [] [] =
           (map (\<lambda>i. page_request jql (100 * i)) [0..<Suc m],
            Inr (concat (map (\<lambda>i. page_at search jql (100 * i)) [0..<Suc m]), Some ?T))"
    and before: "\<forall>i<m. \<not> page_stops ?T (100 * i) (page_at search jql (100 * i))"
    and last: "page_stops ?T (100 * m) (page_at search jql (100 * m))"
    unfolding T0 by auto
  have ex: "execute_jql search jql query_intent =
      (map (\<lambda>i. page_request jql (100 * i)) [0..<Suc m],
       \<lparr>results = filter has_essential_data
                    (concat (map (\<lambda>i. page_at search jql (100 * i)) [0..<Suc m])),
        total_count = total_or_len (Some ?T)
           (length (filter has_essential_data
                    (concat (map (\<lambda>i. page_at search jql (100 * i)) [0..<Suc m])))),
        retrieved_count = length (filter has_essential_data
                    (concat (map (\<lambda>i. page_at search jql (100 * i)) [0..<Suc m]))),
        is_count_only = False, error = None\<rparr>)"
    using full by (simp add: execute_jql_def eq)
  have len: "length (fst (execute_jql search jql query_intent)) = Suc m"
    by (simp add: ex)
  have stops: "\<forall>k < Suc m. page_stops ?T (100 * k) (page_at search jql (100 * k)) \<longleftrightarrow> Suc k = Suc m"
  proof (intro allI impI)
    fix k assume "k < Suc m"
    then consider "k < m" | "k = m" by linarith
    then show "page_stops ?T (100 * k) (page_at search jql (100 * k)) \<longleftrightarrow> Suc k = Suc m"
      using before last by cases auto
  qed
  have sizes: "map max_results (map (\<lambda>i. page_request jql (100 * i)) [0..<Suc m]) =
        replicate (Suc m) 100"
    by (simp add: page_request_def max_results_per_page_def comp_def map_replicate_const
          del: upt_Suc)
  have offsets: "map start_at (map (\<lambda>i. page_request jql (100 * i)) [0..<Suc m]) =
        map (\<lambda>k. 100 * k) [0..<Suc m]"
    by (simp add: page_request_def comp_def del: upt_Suc)
  have reqs: "fst (execute_jql search jql query_intent) =
        map (\<lambda>i. page_request jql (100 * i)) [0..<Suc m]"
    by (simp add: ex)
  show ?thesis
    unfolding len using stops sizes offsets unfolding reqs
    by (simp add: ex total_or_len_Some)
qed

text \<open>
  Claim C1, as amended. In full-fetch mode (the query is not a count-only query) the
  requests issued are \<open>page_request jql 0\<close>, \<open>page_request jql 100\<close>, \<open>page_request jql 200\<close>,
  ..., at least one, each asking for 100 records, for any client. Against a remote whose
  every answer is a search page, the loop stops exactly at the first page that is empty,
  or shorter than 100, or with which the offset plus the records received reaches the
  total declared by the first page; the result holds the concatenated pages without the
  items the essential-data filter drops, and \<open>retrieved_count\<close> is their number;
  \<open>total_count\<close> is the total the first page declared when that total is not 0, and the
  retrieved count when it is 0 (the \<open>or\<close> of line 562); no error is reported. The witness runs
  the paginator that serves 100, 100 and 37 records and declares 237: exactly three
  requests, at offsets 0, 100 and 200, \<open>retrieved_count = 237\<close> and \<open>total_count = 237\<close>.
\<close>

theorem full_fetch_pagination:
  "\<not> is_count_only_query query_intent jql \<longrightarrow>
     0 < length (fst (execute_jql search jql query_intent))
     \<and> fst (execute_jql search jql query_intent) =
         map (\<lambda>k. page_request jql (100 * k)) [0..<length (fst (execute_jql search jql query_intent))]
     \<and> map max_results (fst (execute_jql search jql query_intent)) =
         replicate (length (fst (execute_jql search jql query_intent))) 100
     \<and> map start_at (fst (execute_jql search jql query_intent)) =
         map (\<lambda>k. 100 * k) [0..<length (fst (execute_jql search jql query_intent))]
     \<and> ((\<forall>off. is_search_page (search (page_request jql off))) \<longrightarrow>
          (\<forall>k < length (fst (execute_jql search jql query_intent)).
             page_stops (declared_total search jql 0) (100 * k) (page_at search jql (100 * k))
             \<longleftrightarrow> Suc k = length (fst (execute_jql search jql query_intent)))
          \<and> results (snd (execute_jql search jql query_intent)) =
              filter has_essential_data
                (concat (map (\<lambda>k. page_at search jql (100 * k))
                           [0..<length (fst (execute_jql search jql query_intent))]))
          \<and> retrieved_count (snd (execute_jql search jql query_intent)) =
              length (results (snd (execute_jql search jql query_intent)))
          \<and> total_count (snd (execute_jql search jql query_intent)) =
              (if declared_total search jql 0 = 0
               then int (retrieved_count (snd (execute_jql search jql query_intent)))
               else declared_total search jql 0)
          \<and> \<not> is_count_only (snd (execute_jql search jql query_intent))
          \<and> error (snd (execute_jql search jql query_intent)) = None)"
proof
  assume full: "\<not> is_count_only_query query_intent jql"
  let ?reqs = "fst (execute_jql search jql query_intent)"
  have r: "0 < length ?reqs"
    "?reqs = map (\<lambda>k. page_request jql (100 * k)) [0..<length ?reqs]"
    using full_fetch_requests [OF full, of search] by blast+
  have sizes: "map max_results ?reqs = replicate (length ?reqs) 100"
    by (subst r(2))
       (simp add: page_request_def max_results_per_page_def comp_def map_replicate_const)
  have offsets: "map start_at ?reqs = map (\<lambda>k. 100 * k) [0..<length ?reqs]"
    by (subst r(2)) (simp add: page_request_def comp_def)
  show "0 < length (fst (execute_jql search jql query_intent))
     \<and> fst (execute_jql search jql query_intent) =
         map (\<lambda>k. page_request jql (100 * k)) [0..<length (fst (execute_jql search jql query_intent))]
     \<and> map max_results (fst (execute_jql search jql query_intent)) =
         replicate (length (fst (execute_jql search jql query_intent))) 100
     \<and> map start_at (fst (execute_jql search jql query_intent)) =
         map (\<lambda>k. 100 * k) [0..<length (fst (execute_jql search jql query_intent))]
     \<and> ((\<forall>off. is_search_page (search (page_request jql off))) \<longrightarrow>
          (\<forall>k < length (fst (execute_jql search jql query_intent)).
             page_stops (declared_total search jql 0) (100 * k) (page_at search jql (100 * k))
             \<longleftrightarrow> Suc k = length (fst (execute_jql search jql query_intent)))
          \<and> results (snd (execute_jql search jql query_intent)) =
              filter has_essential_data
                (concat (map (\<lambda>k. page_at search jql (100 * k))
                           [0..<length (fst (execute_jql search jql query_intent))]))
          \<and> retrieved_count (snd (execute_jql search jql query_intent)) =
              length (results (snd (execute_jql search jql query_intent)))
          \<and> total_count (snd (execute_jql search jql query_intent)) =
              (if declared_total search jql 0 = 0
               then int (retrieved_count (snd (execute_jql search jql query_intent)))
               else declared_total search jql 0)
          \<and> \<not> is_count_only (snd (execute_jql search jql query_intent))
          \<and> error (snd (execute_jql search jql query_intent)) = None)"
    using r sizes offsets full_fetch_pages [OF full, of search] by blast
qed

theorem full_fetch_pagination_witness:
  "\<not> is_count_only_query None ''project = \"CCM\"''
   \<and> (\<forall>off. is_search_page (mock_paginator (page_request ''project = \"CCM\"'' off)))
   \<and> length (fst (execute_jql mock_paginator ''project = \"CCM\"'' None)) = 3
   \<and> map start_at (fst (execute_jql mock_paginator ''project = \"CCM\"'' None)) = [0, 100, 200]
   \<and> map max_results (fst (execute_jql mock_paginator ''project = \"CCM\"'' None)) = [100, 100, 100]
   \<and> retrieved_count (snd (execute_jql mock_paginator ''project = \"CCM\"'' None)) = 237
   \<and> total_count (snd (execute_jql mock_paginator ''project = \"CCM\"'' None)) = 237
   \<and> error (snd (execute_jql mock_paginator ''project = \"CCM\"'' None)) = None"
proof -
  let ?jql = "''project = \"CCM\"''"
  have ex: "execute_jql mock_paginator ?jql None =
      ([page_request ?jql 0, page_request ?jql 100, page_request ?jql 200],
       \<lparr>results = replicate 100 mock_issue @ replicate 100 mock_issue @ replicate 37 mock_issue,
        total_count = 237, retrieved_count = 237, is_count_only = False, error = None\<rparr>)"
    using mock_not_count
    by (simp add: execute_jql_def mock_run has_essential_data_def get_key_def mock_issue_def
          total_or_len_def)
  have tot: "declared_total mock_paginator ?jql 0 = 237"
    by (simp add: declared_total_def mock_paginator_def page_request_def get_total_def)
  from full_fetch_pagination [where search = mock_paginator and jql = ?jql
         and query_intent = None] mock_not_count mock_pages
  have "total_count (snd (execute_jql mock_paginator ?jql None)) = 237"
    and "error (snd (execute_jql mock_paginator ?jql None)) = None"
    using tot by simp_all
  then show ?thesis
    using mock_not_count mock_pages
    by (simp add: ex page_request_def max_results_per_page_def)
qed

text \<open>
  The claim C1 as stated fails: the reported total is not always the total the first page
  declares. A first page that holds two records and declares the total 0 ends the loop
  after one request, and line 562, \<open>total_count_from_api or len(filtered_results)\<close>, reports
  the two records retrieved as the total.
\<close>

theorem reported_total_counterexample:
  "\<not> is_count_only_query None ''project = \"CCM\"''
   \<and> (\<forall>off. is_search_page (zero_total_remote (page_request ''project = \"CCM\"'' off)))
   \<and> declared_total zero_total_remote ''project = \"CCM\"'' 0 = 0
   \<and> fst (execute_jql zero_total_remote ''project = \"CCM\"'' None)
       = [page_request ''project = \"CCM\"'' 0]
   \<and> snd (execute_jql zero_total_remote ''project = \"CCM\"'' None)
       = \<lparr>results = [mock_issue, mock_issue], total_count = 2, retrieved_count = 2,
          is_count_only = False, error = None\<rparr>
   \<and> total_count (snd (execute_jql zero_total_remote ''project = \"CCM\"'' None))
       \<noteq> declared_total zero_total_remote ''project = \"CCM\"'' 0"
proof -
  let ?jql = "''project = \"CCM\"''"
  have run: "fetch_loop zero_total_remote ?jql 0 None [] [] =
          ([page_request ?jql 0], Inr ([mock_issue, mock_issue], Some 0))"
    by (subst fetch_loop.simps)
       (simp add: zero_total_remote_def first_total_def get_total_def max_results_per_page_def)
  have ex: "execute_jql zero_total_remote ?jql None =
      ([page_request ?jql 0],
       \<lparr>results = [mock_issue, mock_issue], total_count = 2, retrieved_count = 2,
        is_count_only = False, error = None\<rparr>)"
    using mock_not_count
    by (simp add: execute_jql_def run has_essential_data_def get_key_def mock_issue_def
          total_or_len_def)
  have tot: "declared_total zero_total_remote ?jql 0 = 0"
    by (simp add: declared_total_def zero_total_remote_def get_total_def)
  have pages: "\<forall>off. is_search_page (zero_total_remote (page_request ?jql off))"
    by (simp add: is_search_page_def zero_total_remote_def)
  show ?thesis
    using mock_not_count pages by (simp add: ex tot)
qed

text \<open>
  Claim C2, as amended. \<open>_execute_jql\<close> runs in count-only mode (its first request asks for
  zero records) exactly when the intent is \<open>count_items\<close>, \<open>story_count\<close> or \<open>issue_count\<close>, or
  the lower-cased query contains \<open>count\<close> or \<open>group by\<close>. In that mode it issues exactly one
  request, asking for zero records, for any client, and the result always has no records
  and \<open>retrieved_count = 0\<close>. When the request returns a dict, the result is count-only with
  \<open>total_count\<close> the total the dict declares (0 when it declares none) and no error; when it
  returns something that is not a dict, the result is count-only with \<open>total_count = 0\<close>.
  When the request raises \<open>e\<close>, the \<open>except\<close> branch of lines 567-575 returns the error result:
  \<open>total_count = 0\<close>, \<open>is_count_only = False\<close> and \<open>error = str(e)\<close>. So the result is marked
  count-only exactly when the request returns. With \<open>JiraClient.search\<close> the request always
  returns a dict, whatever the transport does.
\<close>

theorem count_only_mode:
  "(max_results (hd (fst (execute_jql search jql query_intent))) = 0
      \<longleftrightarrow> query_intent \<in> {Some ''count_items'', Some ''story_count'', Some ''issue_count''}
          \<or> sublist ''count'' (lower jql) \<or> sublist ''group by'' (lower jql))
   \<and> (is_count_only_query query_intent jql
      \<longleftrightarrow> query_intent \<in> {Some ''count_items'', Some ''story_count'', Some ''issue_count''}
          \<or> sublist ''count'' (lower jql) \<or> sublist ''group by'' (lower jql))
   \<and> (is_count_only_query query_intent jql \<longrightarrow>
        fst (execute_jql search jql query_intent) = [count_request jql]
        \<and> max_results (count_request jql) = 0
        \<and> results (snd (execute_jql search jql query_intent)) = []
        \<and> retrieved_count (snd (execute_jql search jql query_intent)) = 0
        \<and> (\<forall>issues tot. search (count_request jql) = Inr (DictResult issues tot) \<longrightarrow>
              snd (execute_jql search jql query_intent) =
                \<lparr>results = [], total_count = get_total tot, retrieved_count = 0,
                 is_count_only = True, error = None\<rparr>)
        \<and> (\<forall>e. search (count_request jql) = Inl e \<longrightarrow>
              snd (execute_jql search jql query_intent) =
                \<lparr>results = [], total_count = 0, retrieved_count = 0,
                 is_count_only = False, error = Some e\<rparr>)
        \<and> (\<forall>items. search (count_request jql) = Inr (ListResult items) \<longrightarrow>
              snd (execute_jql search jql query_intent) =
                \<lparr>results = [], total_count = 0, retrieved_count = 0,
                 is_count_only = True, error = None\<rparr>)
        \<and> (search (count_request jql) = Inr OtherResult \<longrightarrow>
              snd (execute_jql search jql query_intent) =
                \<lparr>results = [], total_count = 0, retrieved_count = 0,
                 is_count_only = True, error = None\<rparr>)
        \<and> (is_count_only (snd (execute_jql search jql query_intent))
              \<longleftrightarrow> (\<exists>r. search (count_request jql) = Inr r))
        \<and> (\<forall>http_get. \<exists>issues tot.
              JiraClient_search http_get (count_request jql) = Inr (DictResult issues tot)
              \<and> snd (execute_jql (JiraClient_search http_get) jql query_intent) =
                \<lparr>results = [], total_count = get_total tot, retrieved_count = 0,
                 is_count_only = True, error = None\<rparr>))"
proof -
  have sel: "is_count_only_query query_intent jql
      \<longleftrightarrow> query_intent \<in> {Some ''count_items'', Some ''story_count'', Some ''issue_count''}
          \<or> sublist ''count'' (lower jql) \<or> sublist ''group by'' (lower jql)"
    by (auto simp: is_count_only_query_def)
  have cnt: "is_count_only_query query_intent jql \<Longrightarrow>
        fst (execute_jql s jql query_intent) = [count_request jql]
        \<and> results (snd (execute_jql s jql query_intent)) = []
        \<and> retrieved_count (snd (execute_jql s jql query_intent)) = 0" for s
    by (auto simp: execute_jql_def error_result_def split: sum.splits search_result.splits)
  have dict: "is_count_only_query query_intent jql \<Longrightarrow>
       s (count_request jql) = Inr (DictResult issues tot) \<Longrightarrow>
       snd (execute_jql s jql query_intent) =
                \<lparr>results = [], total_count = get_total tot, retrieved_count = 0,
                 is_count_only = True, error = None\<rparr>" for s issues tot
    by (simp add: execute_jql_def)
  have jc: "\<exists>issues tot. JiraClient_search http_get rq = Inr (DictResult issues tot)" for http_get rq
    by (auto simp: JiraClient_search_def empty_page_def split: sum.splits search_result.splits)
  have full: "\<not> is_count_only_query query_intent jql \<Longrightarrow>
       max_results (hd (fst (execute_jql search jql query_intent))) = 100"
  proof -
    assume n: "\<not> is_count_only_query query_intent jql"
    have "prefix ([] @ [page_request jql 0]) (fst (fetch_loop search jql 0 None [] []))"
      by (rule fetch_loop_first_request)
    then obtain rest where "fst (fetch_loop search jql 0 None [] []) = page_request jql 0 # rest"
      by (auto simp: prefix_def)
    then show ?thesis using n
      by (simp add: execute_jql_requests page_request_def max_results_per_page_def)
  qed
  have first: "max_results (hd (fst (execute_jql search jql query_intent))) = 0
      \<longleftrightarrow> is_count_only_query query_intent jql"
  proof (cases "is_count_only_query query_intent jql")
    case True
    then show ?thesis using cnt [OF True, of search] by (simp add: count_request_def)
  next
    case False
    then show ?thesis using full [OF False] by simp
  qed
  show ?thesis
    unfolding first
    apply (intro conjI impI allI)
    subgoal by (rule sel)
    subgoal by (rule sel)
    subgoal using cnt by blast
    subgoal by (simp add: count_request_def)
    subgoal using cnt by blast
    subgoal using cnt by blast
    subgoal using dict by blast
    subgoal by (simp add: execute_jql_def error_result_def)
    subgoal by (simp add: execute_jql_def)
    subgoal by (simp add: execute_jql_def)
    subgoal by (auto simp: execute_jql_def error_result_def split: sum.splits search_result.splits)
    subgoal for http_get using dict [of "JiraClient_search http_get"] jc [of http_get "count_request jql"] by blast
    done
qed



theorem count_only_mode_witness:
  "is_count_only_query None ''project = \"CCM\" GROUP BY status''
   \<and> fst (execute_jql count_mock ''project = \"CCM\" GROUP BY status'' None)
       = [\<lparr>rq_jql = ''project = \"CCM\" GROUP BY status'', max_results = 0, rq_fields = None,
           start_at = 0\<rparr>]
   \<and> snd (execute_jql count_mock ''project = \"CCM\" GROUP BY status'' None)
       = \<lparr>results = [], total_count = 42, retrieved_count = 0, is_count_only = True,
          error = None\<rparr>"
proof -
  let ?jql = "''project = \"CCM\" GROUP BY status''"
  have c: "is_count_only_query None ?jql"
    by (simp add: is_count_only_query_def lower_def lower_char_def sublist_code)
  have m: "count_mock (count_request ?jql) = Inr (DictResult None (Some 42))"
    by (simp add: count_mock_def)
  show ?thesis
    using count_only_mode [where search = count_mock and jql = ?jql and query_intent = None] c m
    by (simp add: count_request_def get_total_def)
qed

text \<open>
  The claim C2 as stated fails: in count-only mode the result is not always marked
  count-only. When the one request raises, as with a client whose \<open>search\<close> raises
  \<open>ConnectTimeout\<close>, the \<open>except\<close> branch returns the error result with \<open>is_count_only = False\<close>,
  and there is no declared total to report.
\<close>

theorem count_only_raise_counterexample:
  "is_count_only_query (Some ''count_items'') ''project = \"CCM\"''
   \<and> fst (execute_jql raising_client ''project = \"CCM\"'' (Some ''count_items''))
       = [\<lparr>rq_jql = ''project = \"CCM\"'', max_results = 0, rq_fields = None, start_at = 0\<rparr>]
   \<and> snd (execute_jql raising_client ''project = \"CCM\"'' (Some ''count_items''))
       = \<lparr>results = [], total_count = 0, retrieved_count = 0, is_count_only = False,
          error = Some ''ConnectTimeout''\<rparr>
   \<and> \<not> is_count_only (snd (execute_jql raising_client ''project = \"CCM\"'' (Some ''count_items'')))"
  by (simp add: is_count_only_query_def execute_jql_def raising_client_def error_result_def
        count_request_def)

text \<open>
  Claim C3, as amended. No failure of the remote call leaves \<open>_execute_jql\<close> as an exception:
  the result is the zero-result dict with \<open>error = str(e)\<close> exactly when the last request
  issued raised \<open>e\<close> in the client (the message is passed on as it is). With
  \<open>JiraClient.search\<close> a transport, HTTP-status or parse failure never reaches that branch:
  \<open>search\<close> absorbs it and returns an empty page, so the result never carries an error, and
  when the first request fails the result is the zero-result dict without an error entry.
\<close>

theorem remote_failure_absorbed:
  "(search (last (fst (execute_jql search jql query_intent))) = Inl e
      \<longleftrightarrow> snd (execute_jql search jql query_intent) =
            \<lparr>results = [], total_count = 0, retrieved_count = 0, is_count_only = False,
             error = Some e\<rparr>)
   \<and> error (snd (execute_jql (JiraClient_search http_get) jql query_intent)) = None
   \<and> (search_failed http_get (first_request query_intent jql) \<longrightarrow>
        snd (execute_jql (JiraClient_search http_get) jql query_intent) =
            \<lparr>results = [], total_count = 0, retrieved_count = 0,
             is_count_only = is_count_only_query query_intent jql, error = None\<rparr>)"
proof -
  have a: "search (last (fst (execute_jql search jql query_intent))) = Inl e
      \<longleftrightarrow> snd (execute_jql search jql query_intent) =
            \<lparr>results = [], total_count = 0, retrieved_count = 0, is_count_only = False,
             error = Some e\<rparr>"
    using execute_jql_error [of search jql query_intent e] by (simp add: error_result_def)
  have b: "error (snd (execute_jql (JiraClient_search http_get) jql query_intent)) = None"
  proof (cases "error (snd (execute_jql (JiraClient_search http_get) jql query_intent))")
    case None
    then show ?thesis .
  next
    case (Some x)
    have "snd (execute_jql (JiraClient_search http_get) jql query_intent) = error_result x"
      using Some
      by (auto simp: execute_jql_def error_result_def
               split: if_splits prod.splits sum.splits search_result.splits)
    then have "JiraClient_search http_get
                 (last (fst (execute_jql (JiraClient_search http_get) jql query_intent))) = Inl x"
      by (simp add: execute_jql_error)
    then show ?thesis
      using JiraClient_search_returns
        [of http_get "last (fst (execute_jql (JiraClient_search http_get) jql query_intent))"]
      by simp
  qed
  have c: "snd (execute_jql (JiraClient_search http_get) jql query_intent) =
            \<lparr>results = [], total_count = 0, retrieved_count = 0,
             is_count_only = is_count_only_query query_intent jql, error = None\<rparr>"
    if f: "search_failed http_get (first_request query_intent jql)"
  proof (cases "is_count_only_query query_intent jql")
    case True
    with f have "JiraClient_search http_get (count_request jql) = Inr (DictResult (Some []) (Some 0))"
      by (simp add: first_request_def JiraClient_search_failed)
    then show ?thesis using True by (simp add: execute_jql_def get_total_def)
  next
    case False
    with f have "JiraClient_search http_get (page_request jql 0) = Inr (DictResult (Some []) (Some 0))"
      by (simp add: first_request_def JiraClient_search_failed)
    then have "fetch_loop (JiraClient_search http_get) jql 0 None [] [] =
                 ([page_request jql 0], Inr ([], Some 0))"
      by (subst fetch_loop.simps) (simp add: first_total_def get_total_def)
    then show ?thesis using False by (simp add: execute_jql_def total_or_len_def)
  qed
  show ?thesis using a b c by blast
qed



theorem remote_failure_absorbed_witness:
  "search_failed failing_transport (first_request None ''project = \"CCM\"'')
   \<and> snd (execute_jql (JiraClient_search failing_transport) ''project = \"CCM\"'' None) =
        \<lparr>results = [], total_count = 0, retrieved_count = 0, is_count_only = False, error = None\<rparr>
   \<and> raising_client (last (fst (execute_jql raising_client ''project = \"CCM\"'' None)))
        = Inl ''ConnectTimeout''
   \<and> snd (execute_jql raising_client ''project = \"CCM\"'' None) =
        \<lparr>results = [], total_count = 0, retrieved_count = 0, is_count_only = False,
         error = Some ''ConnectTimeout''\<rparr>"
proof -
  have f: "search_failed failing_transport rq" for rq
    by (simp add: search_failed_def failing_transport_def)
  have r: "raising_client rq = Inl ''ConnectTimeout''" for rq
    by (simp add: raising_client_def)
  show ?thesis
    using remote_failure_absorbed [where search = raising_client and jql = "''project = \"CCM\"''"
        and query_intent = None and e = "''ConnectTimeout''" and http_get = failing_transport]
      f r mock_not_count
    by simp
qed

text \<open>
  The claim C3 as stated fails on \<open>JiraClient.search\<close>: when every GET raises, the result of
  \<open>_execute_jql\<close> has no error entry.
\<close>

theorem transport_failure_counterexample:
  "snd (execute_jql (JiraClient_search failing_transport) ''project = \"CCM\"'' None) =
        \<lparr>results = [], total_count = 0, retrieved_count = 0, is_count_only = False, error = None\<rparr>"
proof -
  have "fetch_loop (JiraClient_search failing_transport) ''project = \"CCM\"'' 0 None [] [] =
          ([page_request ''project = \"CCM\"'' 0], Inr ([], Some 0))"
    by (subst fetch_loop.simps)
       (simp add: JiraClient_search_def failing_transport_def empty_page_def first_total_def
          get_total_def)
  then show ?thesis
    using mock_not_count by (simp add: execute_jql_def total_or_len_def)
qed

section \<open>Properties of the routing\<close>

lemmas eval_str = lower_def lower_char_def any_in_def sublist_code(3)

text \<open>
  Claim C5, as amended. When the external client and the document collaborator are both
  configured, every utterance that contains a priority document keyword is routed to the
  document store first, whatever tracker keywords it also contains; when the document
  collaborator is not configured, no utterance is routed to the document store.
\<close>

theorem priority_keyword_routing:
  "(has_confluence_priority user_query \<and> client self \<and> confluence_client self
      \<longrightarrow> process_query_route self user_query = ConfluenceFirst)
   \<and> (\<not> confluence_client self \<longrightarrow> process_query_route self user_query \<noteq> ConfluenceFirst)"
proof (intro conjI impI)
  assume "has_confluence_priority user_query \<and> client self \<and> confluence_client self"
  then have first: "should_search_confluence_first user_query"
    and both: "client self" "confluence_client self"
    by (simp_all add: should_search_confluence_first_def Let_def)
  then show "process_query_route self user_query = ConfluenceFirst"
    by (simp add: process_query_route_def)
next
  assume "\<not> confluence_client self"
  then show "process_query_route self user_query \<noteq> ConfluenceFirst"
    by (simp add: process_query_route_def)
qed

theorem priority_keyword_routing_witness:
  "has_confluence_priority ''Wiki page about the sprint bug''
   \<and> any_in jira_keywords (lower ''Wiki page about the sprint bug'')
   \<and> process_query_route \<lparr>client = True, confluence_client = True\<rparr>
         ''Wiki page about the sprint bug'' = ConfluenceFirst
   \<and> process_query_route \<lparr>client = True, confluence_client = False\<rparr>
         ''Wiki page about the sprint bug'' \<noteq> ConfluenceFirst"
proof -
  have p: "has_confluence_priority ''Wiki page about the sprint bug''"
    by (simp add: has_confluence_priority_def confluence_priority_keywords_def eval_str)
  have j: "any_in jira_keywords (lower ''Wiki page about the sprint bug'')"
    by (simp add: jira_keywords_def eval_str)
  show ?thesis
    using priority_keyword_routing [of "''Wiki page about the sprint bug''"
        "\<lparr>client = True, confluence_client = True\<rparr>"]
      priority_keyword_routing [of "''Wiki page about the sprint bug''"
        "\<lparr>client = True, confluence_client = False\<rparr>"] p j
    by simp
qed

text \<open>
  The claim C5 as stated fails when no API key is set: the document collaborator is
  configured and the utterance is a priority keyword, yet line 73 returns the deterministic
  tracker path.
\<close>

theorem priority_keyword_routing_counterexample:
  "has_confluence_priority ''confluence''
   \<and> confluence_client (init_engine None True)
   \<and> process_query_route (init_engine None True) ''confluence'' = FallbackProcessing"
  by (simp add: has_confluence_priority_def confluence_priority_keywords_def eval_str
        process_query_route_def init_engine_def client_configured_def)

text \<open>
  Claim C10. The external client is configured exactly when the API key is present,
  non-empty and not the placeholder. When it is not configured, \<open>process_query\<close> takes the
  deterministic fallback path for every utterance and does not search the document
  store, also with the document collaborator configured and priority keywords in the
  utterance; the document store is searched only when the external client is configured.
\<close>

theorem unconfigured_client_takes_fallback:
  "(\<not> client_configured api_key \<longrightarrow>
      process_query_route (init_engine api_key confluence) user_query = FallbackProcessing
      \<and> \<not> searches_documents (process_query_route (init_engine api_key confluence) user_query))
   \<and> (searches_documents (process_query_route self user_query) \<longrightarrow> client self)
   \<and> (client_configured api_key \<longleftrightarrow>
        (\<exists>k. api_key = Some k \<and> k \<noteq> [] \<and> \<not> prefix ''sk-your-actual'' k))"
proof (intro conjI impI)
  assume "\<not> client_configured api_key"
  then have "\<not> client (init_engine api_key confluence)"
    by (simp add: init_engine_def)
  then show "process_query_route (init_engine api_key confluence) user_query = FallbackProcessing"
    by (simp add: process_query_route_def)
  then show "\<not> searches_documents (process_query_route (init_engine api_key confluence) user_query)"
    by (simp add: searches_documents_def)
next
  assume "searches_documents (process_query_route self user_query)"
  then show "client self"
    by (simp add: searches_documents_def process_query_route_def split: if_splits)
next
  show "client_configured api_key \<longleftrightarrow>
        (\<exists>k. api_key = Some k \<and> k \<noteq> [] \<and> \<not> prefix ''sk-your-actual'' k)"
    by (cases api_key) (simp_all add: client_configured_def)
qed

theorem unconfigured_client_takes_fallback_witness:
  "\<not> client_configured None
   \<and> \<not> client_configured (Some ''sk-your-actual-api-key-here'')
   \<and> has_confluence_priority ''insurance eligibility wiki''
   \<and> process_query_route (init_engine None True) ''insurance eligibility wiki''
       = FallbackProcessing
   \<and> process_query_route (init_engine (Some ''sk-your-actual-api-key-here'') True)
         ''insurance eligibility wiki'' = FallbackProcessing
   \<and> \<not> searches_documents
         (process_query_route (init_engine None True) ''insurance eligibility wiki'')
   \<and> searches_documents
         (process_query_route (init_engine (Some ''sk-live-key'') True)
            ''insurance eligibility wiki'')
   \<and> client (init_engine (Some ''sk-live-key'') True)"
proof -
  have n: "\<not> client_configured None"
    by (simp add: client_configured_def)
  have ph: "\<not> client_configured (Some ''sk-your-actual-api-key-here'')"
    by (simp add: client_configured_def)
  have p: "has_confluence_priority ''insurance eligibility wiki''"
    by (simp add: has_confluence_priority_def confluence_priority_keywords_def eval_str)
  have live: "client_configured (Some ''sk-live-key'')"
    by (simp add: client_configured_def)
  have r: "process_query_route (init_engine (Some ''sk-live-key'') True)
         ''insurance eligibility wiki'' = ConfluenceFirst"
    using p live
    by (simp add: process_query_route_def should_search_confluence_first_def Let_def
          init_engine_def)
  show ?thesis
    using unconfigured_client_takes_fallback [of None True "''insurance eligibility wiki''"
            "init_engine (Some ''sk-live-key'') True"]
      unconfigured_client_takes_fallback [of "Some ''sk-your-actual-api-key-here''" True
            "''insurance eligibility wiki''" "init_engine (Some ''sk-live-key'') True"]
      n ph p r
    by (simp add: searches_documents_def)
qed

section \<open>Properties of the deterministic query builders\<close>








lemma letter_not_digit: "is_letter c \<Longrightarrow> \<not> is_digit c"
  by (auto simp: is_letter_def is_digit_def)























section \<open>Properties of the summary\<close>

lemma tally_count_up: "tally (count_up d k) who = tally d who + (if who = k then 1 else 0)"
  by (induction d k rule: count_up.induct) (auto simp: tally_def)

lemma keys_count_up: "fst ` set (count_up d k) = insert k (fst ` set d)"
  by (induction d k rule: count_up.induct) auto

lemma distinct_count_up: "distinct (map fst d) \<Longrightarrow> distinct (map fst (count_up d k))"
  by (induction d k rule: count_up.induct) (auto simp: keys_count_up)

lemma positive_count_up: "\<forall>x \<in> set d. 0 < snd x \<Longrightarrow> \<forall>x \<in> set (count_up d k). 0 < snd x"
  by (induction d k rule: count_up.induct) auto

lemma foldl_count_up:
  "tally (foldl (\<lambda>d item. count_up d (f item)) d items) who
     = tally d who + length (filter (\<lambda>r. f r = who) items)
   \<and> fst ` set (foldl (\<lambda>d item. count_up d (f item)) d items) = fst ` set d \<union> f ` set items
   \<and> (distinct (map fst d) \<longrightarrow> distinct (map fst (foldl (\<lambda>d item. count_up d (f item)) d items)))
   \<and> ((\<forall>x \<in> set d. 0 < snd x) \<longrightarrow>
        (\<forall>x \<in> set (foldl (\<lambda>d item. count_up d (f item)) d items). 0 < snd x))"
proof (induction items arbitrary: d)
  case Nil
  then show ?case by simp
next
  case (Cons a items)
  show ?case
    using Cons.IH [of "count_up d (f a)"] positive_count_up [of d "f a"]
      distinct_count_up [of d "f a"]
    by (auto simp: tally_count_up keys_count_up)
qed

lemma count_by_lookup:
  "map_of (count_by f items) who =
     (if who \<in> f ` set items then Some (length (filter (\<lambda>r. f r = who) items)) else None)"
proof -
  let ?d = "count_by f items"
  from foldl_count_up [of f "[]" items who]
  have t: "tally ?d who = length (filter (\<lambda>r. f r = who) items)"
    and k: "fst ` set ?d = f ` set items"
    by (simp_all add: count_by_def tally_def)
  show ?thesis
  proof (cases "who \<in> f ` set items")
    case True
    then have "who \<in> fst ` set ?d" using k by simp
    then obtain n where "map_of ?d who = Some n"
      by (metis domD dom_map_of_conv_image_fst)
    then show ?thesis using t True by (simp add: tally_def)
  next
    case False
    then have "who \<notin> fst ` set ?d" using k by simp
    then have "map_of ?d who = None"
      by (simp add: map_of_eq_None_iff)
    then show ?thesis using False by simp
  qed
qed

lemma count_by_distinct: "distinct (map fst (count_by f items))"
  using foldl_count_up [of f "[]" items] by (simp add: count_by_def)

lemma section_line_heads:
  "l \<in> set (breakdown_section title unit d) \<Longrightarrow>
     l \<noteq> [] \<and> (hd l = CHR 0x0A \<or> hd l = CHR ''-'')"
  by (auto simp: breakdown_section_def split: if_splits)

lemma context_line_heads:
  "l \<in> set (context_lines c) \<Longrightarrow> l = [] \<or> hd l = CHR ''*''"
  by (auto simp: context_lines_def split: option.splits if_splits)

lemma statement_heads:
  "hd (complete_statement n) = CHR ''F''" "complete_statement n \<noteq> []"
  "hd (partial_statement r n) = CHR ''S''" "partial_statement r n \<noteq> []"
  by (simp_all add: complete_statement_def partial_statement_def)

lemma statement_in_summary:
  assumes "items \<noteq> []" and "s \<noteq> []" and "hd s = CHR ''F'' \<or> hd s = CHR ''S''"
  shows "s \<in> set (create_detailed_analysis items t r c) \<longleftrightarrow> s = count_statement (analyse items t r)"
proof -
  have "s \<notin> set (context_lines c)"
    using assms(2,3) context_line_heads [of s c] by auto
  moreover have "s \<notin> set (breakdown_section title unit d)" for title unit d
    using assms(3) section_line_heads [of s title unit d] by auto
  ultimately show ?thesis
    using assms(1) by (auto simp: create_detailed_analysis_def)
qed

lemma three_by_assignee:
  "by_assignee (analyse three_records t r) = [(''Alice'', 2), (''Bob'', 1)]"
  by (simp add: analyse_def count_by_def three_records_def assigned_to_def item_assignee_def
        get_fields_def get_display_name_def)

lemma str_int_small: "str_int 3 = ''3''" "str_int 10 = ''10''" "str_int 0 = ''0''"
  by (simp_all add: str_int_def str_nat.simps digit_char_def)

text \<open>
  Claim C6, as amended. For every non-empty record sequence, \<open>by_assignee\<close> maps each
  assignee display name to the number of records assigned to it and has no other keys (a
  record without an assignee counts under \<open>Unassigned\<close>); the summary contains the statement
  that the complete dataset was analysed exactly when the declared total equals the
  retrieved count, and the statement that only \<open>retrieved\<close> of \<open>declared\<close> items are shown
  exactly when they differ. For the empty sequence the summary is \<open>No items found.\<close> and
  makes neither statement. The witness takes three records, two of Alice and one of Bob:
  \<open>by_assignee\<close> is Alice 2, Bob 1; declared 3 of 3 is complete, declared 10 is partial.
\<close>

theorem summary_counts_and_completeness:
  "create_detailed_analysis [] given_total given_retrieved c = [''No items found.'']
   \<and> (items \<noteq> [] \<longrightarrow>
        (\<forall>who. map_of (by_assignee (analyse items (Some declared) (Some retrieved))) who =
           (if who \<in> item_assignee ` set items
            then Some (length (filter (\<lambda>r. item_assignee r = who) items)) else None))
        \<and> distinct (map fst (by_assignee (analyse items (Some declared) (Some retrieved))))
        \<and> (\<forall>r. assignee (get_fields r) = None \<longrightarrow> item_assignee r = ''Unassigned'')
        \<and> (complete_statement declared
              \<in> set (create_detailed_analysis items (Some declared) (Some retrieved) c)
            \<longleftrightarrow> declared = retrieved)
        \<and> (partial_statement retrieved declared
              \<in> set (create_detailed_analysis items (Some declared) (Some retrieved) c)
            \<longleftrightarrow> declared \<noteq> retrieved))"
proof -
  have e: "create_detailed_analysis [] given_total given_retrieved c = [''No items found.'']"
    by (simp add: create_detailed_analysis_def)
  have a: "map_of (by_assignee (analyse items (Some declared) (Some retrieved))) who =
           (if who \<in> item_assignee ` set items
            then Some (length (filter (\<lambda>r. item_assignee r = who) items)) else None)" for who
    by (simp add: analyse_def count_by_lookup)
  have d: "distinct (map fst (by_assignee (analyse items (Some declared) (Some retrieved))))"
    by (simp add: analyse_def count_by_distinct)
  have u: "assignee (get_fields r) = None \<longrightarrow> item_assignee r = ''Unassigned''" for r
    by (simp add: item_assignee_def get_display_name_def)
  have cs: "count_statement (analyse items (Some declared) (Some retrieved)) =
        (if declared = retrieved then complete_statement declared
         else partial_statement retrieved declared)"
    by (simp add: count_statement_def analyse_def actual_count_def)
  have ne: "complete_statement declared \<noteq> partial_statement retrieved declared"
    by (simp add: complete_statement_def partial_statement_def)
  have c1: "complete_statement declared
              \<in> set (create_detailed_analysis items (Some declared) (Some retrieved) c)
            \<longleftrightarrow> declared = retrieved" if "items \<noteq> []"
    using statement_in_summary [OF that statement_heads(2), of declared "Some declared" "Some retrieved" c]
      ne by (simp add: statement_heads cs)
  have c2: "partial_statement retrieved declared
              \<in> set (create_detailed_analysis items (Some declared) (Some retrieved) c)
            \<longleftrightarrow> declared \<noteq> retrieved" if "items \<noteq> []"
    using statement_in_summary [OF that statement_heads(4), of retrieved declared "Some declared" "Some retrieved" c]
      ne by (auto simp add: statement_heads cs)
  show ?thesis using e a d u c1 c2 by blast
qed

theorem summary_counts_and_completeness_witness:
  "three_records \<noteq> []
   \<and> by_assignee (analyse three_records (Some 3) (Some 3)) = [(''Alice'', 2), (''Bob'', 1)]
   \<and> map_of (by_assignee (analyse three_records (Some 3) (Some 3))) ''Alice'' = Some 2
   \<and> ''Found 3 total items (complete dataset analyzed):''
        \<in> set (create_detailed_analysis three_records (Some 3) (Some 3) None)
   \<and> ''Showing segregations for 3 issues (out of 10 total).''
        \<in> set (create_detailed_analysis three_records (Some 10) (Some 3) None)
   \<and> ''Found 10 total items (complete dataset analyzed):''
        \<notin> set (create_detailed_analysis three_records (Some 10) (Some 3) None)"
proof -
  have n: "three_records \<noteq> []" by (simp add: three_records_def)
  have c: "complete_statement 3 = ''Found 3 total items (complete dataset analyzed):''"
    "complete_statement 10 = ''Found 10 total items (complete dataset analyzed):''"
    "partial_statement 3 10 = ''Showing segregations for 3 issues (out of 10 total).''"
    by (simp_all add: complete_statement_def partial_statement_def str_int_small)
  show ?thesis
    using summary_counts_and_completeness [where items = three_records and declared = 3
        and retrieved = 3 and c = None]
      summary_counts_and_completeness [where items = three_records and declared = 10
        and retrieved = 3 and c = None]
      n c
    by (simp add: three_by_assignee)
qed

text \<open>
  The claim C6 as stated fails on the empty record sequence: with declared total 10 and
  nothing retrieved the summary does not say that the data is partial, and with both
  counts 0 it does not say that the data is complete.
\<close>

theorem summary_of_nothing_counterexample:
  "partial_statement 0 10 \<notin> set (create_detailed_analysis [] (Some 10) (Some 0) None)
   \<and> complete_statement 0 \<notin> set (create_detailed_analysis [] (Some 0) (Some 0) None)
   \<and> create_detailed_analysis [] (Some 10) (Some 0) None = [''No items found.'']"
  by (simp add: create_detailed_analysis_def complete_statement_def partial_statement_def)

section \<open>Properties of comparison batches\<close>

lemma entities_data_sorted: "sorted_wrt (\<lambda>a b. snd b \<le> snd a) (entities_data rs)"
proof -
  have "sorted (map (\<lambda>x. - snd x) (entities_data rs))"
    unfolding entities_data_def by (rule sorted_sort_key)
  then show ?thesis by (simp add: sorted_map)
qed

lemma entities_data_mset:
  "mset (entities_data rs) = mset (map (\<lambda>r. (entity r, ce_count r)) rs)"
  by (simp add: entities_data_def)

lemma entities_data_sum: "sum_list (map snd (entities_data rs)) = sum_list (map ce_count rs)"
proof -
  have "sum_list (map snd (entities_data rs)) = sum_mset (image_mset snd (mset (entities_data rs)))"
    by (metis mset_map sum_mset_sum_list)
  also have "\<dots> = sum_mset (image_mset snd (mset (map (\<lambda>r. (entity r, ce_count r)) rs)))"
    by (simp add: entities_data_mset)
  also have "\<dots> = sum_list (map snd (map (\<lambda>r. (entity r, ce_count r)) rs))"
    by (metis mset_map sum_mset_sum_list)
  also have "\<dots> = sum_list (map ce_count rs)"
    by (simp add: comp_def)
  finally show ?thesis .
qed

lemma filter_items [simp]:
  "filter is_verdict (map (\<lambda>(e, c). EntityItems e c) xs) = []"
  "filter is_workload (map (\<lambda>(e, c). EntityItems e c) xs) = []"
  "filter is_entity_items (map (\<lambda>(e, c). EntityItems e c) xs) = map (\<lambda>(e, c). EntityItems e c) xs"
  by (induction xs) auto

lemma filter_workload [simp]:
  "filter is_verdict (workload xs) = []"
  "filter is_entity_items (workload xs) = []"
  "filter is_workload (workload xs) = workload xs"
proof -
  have "filter is_verdict (map (\<lambda>(e, c). Workload e (f c)) ys) = []
      \<and> filter is_entity_items (map (\<lambda>(e, c). Workload e (f c)) ys) = []
      \<and> filter is_workload (map (\<lambda>(e, c). Workload e (f c)) ys) = map (\<lambda>(e, c). Workload e (f c)) ys"
    for f :: "int \<Rightarrow> rat" and ys :: "(string \<times> int) list"
    by (induction ys) auto
  then show "filter is_verdict (workload xs) = []"
    "filter is_entity_items (workload xs) = []"
    "filter is_workload (workload xs) = workload xs"
    by (simp_all add: workload_def)
qed

lemma filter_verdict [simp]:
  "filter is_workload (verdict xs) = []"
  "filter is_entity_items (verdict xs) = []"
  by (auto simp: verdict_def split: list.splits prod.splits)

lemma verdict_parts:
  "filter is_verdict (verdict xs) =
     (case xs of
        (e1, c1) # (e2, c2) # rest \<Rightarrow>
          if c2 < c1 then [Winner e1 c1, Difference (c1 - c2) e2]
          else if c1 = c2 then [Tied e1 e2 c1] else []
      | other \<Rightarrow> [])"
  by (auto simp: verdict_def split: list.splits prod.splits)

lemma data_12_7: "entities_data [counted ''A'' 12, counted ''B'' 7] = [(''A'', 12), (''B'', 7)]"
  by (simp add: entities_data_def counted_def)

lemma data_7_12: "entities_data [counted ''B'' 7, counted ''A'' 12] = [(''A'', 12), (''B'', 7)]"
  by (simp add: entities_data_def counted_def)

lemma data_0_0: "entities_data [counted ''A'' 0, counted ''B'' 0] = [(''A'', 0), (''B'', 0)]"
  by (simp add: entities_data_def counted_def)

lemma not_count_alice: "\<not> is_count_only_query (Some ''assignee_comparison'') alice_jql"
  by (simp add: is_count_only_query_def alice_jql_def eval_str)

lemma not_count_bob: "\<not> is_count_only_query (Some ''assignee_comparison'') bob_jql"
  by (simp add: is_count_only_query_def bob_jql_def eval_str)

lemma labels:
  "entity_label [(''entity1'', ''Alice''), (''entity2'', ''Bob'')] 0 = ''Alice''"
  "entity_label [(''entity1'', ''Alice''), (''entity2'', ''Bob'')] (Suc 0) = ''Bob''"
  by (simp_all add: entity_label_def str_nat.simps digit_char_def)

lemma comparison_entries_counts:
  "map ce_count (comparison_entries (\<lambda>jql. Inr (f jql)) ents i jql_list)
     = map (\<lambda>jql. total_count (f jql)) jql_list"
  "map ce_retrieved_count (comparison_entries (\<lambda>jql. Inr (f jql)) ents i jql_list)
     = map (\<lambda>jql. retrieved_count (f jql)) jql_list"
  by (induction jql_list arbitrary: i) auto

lemma assigned_has_essential_data: "has_essential_data (assigned_to k who)"
  by (simp add: has_essential_data_def get_key_def filter_summary_def assigned_to_def)

lemma alice_capped:
  "snd (execute_jql capped_remote alice_jql (Some ''assignee_comparison''))
     = \<lparr>results = replicate 50 (assigned_to ''CCM-1'' ''Alice''),
        total_count = 500, retrieved_count = 50, is_count_only = False, error = None\<rparr>"
proof -
  have "fetch_loop capped_remote alice_jql 0 None [] [] =
          ([page_request alice_jql 0],
           Inr (replicate 50 (assigned_to ''CCM-1'' ''Alice''), Some 500))"
    by (subst fetch_loop.simps)
       (simp add: capped_remote_def page_request_def first_total_def get_total_def
          max_results_per_page_def)
  then show ?thesis
    using not_count_alice
    by (simp add: execute_jql_def total_or_len_def assigned_has_essential_data)
qed

lemma bob_uncapped:
  "snd (execute_jql capped_remote bob_jql (Some ''assignee_comparison''))
     = \<lparr>results = replicate 60 (assigned_to ''CCM-2'' ''Bob''),
        total_count = 60, retrieved_count = 60, is_count_only = False, error = None\<rparr>"
proof -
  have ne: "bob_jql \<noteq> alice_jql"
    by (simp add: bob_jql_def alice_jql_def)
  have "fetch_loop capped_remote bob_jql 0 None [] [] =
          ([page_request bob_jql 0],
           Inr (replicate 60 (assigned_to ''CCM-2'' ''Bob''), Some 60))"
    using ne
    by (subst fetch_loop.simps)
       (simp add: capped_remote_def page_request_def first_total_def get_total_def
          max_results_per_page_def)
  then show ?thesis
    using not_count_bob
    by (simp add: execute_jql_def total_or_len_def assigned_has_essential_data)
qed

text \<open>
  Claim C7, as amended. For every comparison batch, the fallback comparison answer ranks
  the entities by the \<open>count\<close> of their entries, largest first (the ranking is a sorted
  rearrangement of the batch, and the result lines follow it). With at least two
  entities, when the top count is strictly greater than the next the answer names the top
  entity as winner and the difference to the runner-up; when the two leading counts are
  equal it reports a tie; with fewer than two entities it gives no verdict. The share
  lines are present only when the combined total is positive, one per entity with
  \<open>count / total * 100\<close>; for a zero total there is none (and nothing is divided). The
  \<open>count\<close> of an entry is what line 228 of \<open>process_query\<close> puts there: the \<open>total_count\<close> of the
  entity's query, which is the total the remote declared; the number of records fetched
  is the entry's \<open>retrieved_count\<close>, which the ranking does not read. The witness: counts 12
  and 7 give the first entity as winner, difference 5, and shares \<open>1200/19\<close> and \<open>700/19\<close>,
  within 0.05 of 63.2 and 36.8.
\<close>

theorem comparison_ranking:
  "sorted_wrt (\<lambda>a b. snd b \<le> snd a) (entities_data rs)
   \<and> mset (entities_data rs) = mset (map (\<lambda>r. (entity r, ce_count r)) rs)
   \<and> filter is_entity_items (fallback_comparison_response rs)
       = map (\<lambda>(e, c). EntityItems e c) (entities_data rs)
   \<and> (\<forall>e1 c1 e2 c2 rest. entities_data rs = (e1, c1) # (e2, c2) # rest \<longrightarrow>
         c2 \<le> c1
         \<and> (c2 < c1 \<longrightarrow> filter is_verdict (fallback_comparison_response rs)
                           = [Winner e1 c1, Difference (c1 - c2) e2])
         \<and> (c1 = c2 \<longrightarrow> filter is_verdict (fallback_comparison_response rs)
                           = [Tied e1 e2 c1]))
   \<and> (length rs < 2 \<longrightarrow> filter is_verdict (fallback_comparison_response rs) = [])
   \<and> filter is_workload (fallback_comparison_response rs) =
        (if 0 < sum_list (map ce_count rs)
         then map (\<lambda>(e, c). Workload e (of_int c / of_int (sum_list (map ce_count rs)) * 100))
                (entities_data rs)
         else [])
   \<and> (sum_list (map ce_count rs) = 0 \<longrightarrow>
         filter is_workload (fallback_comparison_response rs) = [])
   \<and> map ce_count (process_comparison search query_intent ents jql_list)
       = map (\<lambda>jql. total_count (snd (execute_jql search jql query_intent))) jql_list
   \<and> map ce_retrieved_count (process_comparison search query_intent ents jql_list)
       = map (\<lambda>jql. retrieved_count (snd (execute_jql search jql query_intent))) jql_list"
proof -
  let ?ed = "entities_data rs"
  have counts:
    "map ce_count (process_comparison search query_intent ents jql_list)
       = map (\<lambda>jql. total_count (snd (execute_jql search jql query_intent))) jql_list"
    "map ce_retrieved_count (process_comparison search query_intent ents jql_list)
       = map (\<lambda>jql. retrieved_count (snd (execute_jql search jql query_intent))) jql_list"
    unfolding process_comparison_def
    using comparison_entries_counts [of "\<lambda>jql. snd (execute_jql search jql query_intent)"]
    by simp_all
  have v: "filter is_verdict (fallback_comparison_response rs) = filter is_verdict (verdict ?ed)"
    by (simp add: fallback_comparison_response_def)
  have w: "filter is_workload (fallback_comparison_response rs) = workload ?ed"
    by (simp add: fallback_comparison_response_def)
  have i: "filter is_entity_items (fallback_comparison_response rs)
       = map (\<lambda>(e, c). EntityItems e c) ?ed"
    by (simp add: fallback_comparison_response_def)
  have top: "c2 \<le> c1" if "?ed = (e1, c1) # (e2, c2) # rest" for e1 c1 e2 c2 rest
    using entities_data_sorted [of rs] that by simp
  have short: "filter is_verdict (verdict ?ed) = []" if "length rs < 2"
  proof -
    have "length ?ed = length rs" by (simp add: entities_data_def)
    with that have "length ?ed < 2" by simp
    then show ?thesis
      by (cases ?ed) (auto simp: verdict_parts split: list.splits)
  qed
  have wl: "workload ?ed =
        (if 0 < sum_list (map ce_count rs)
         then map (\<lambda>(e, c). Workload e (of_int c / of_int (sum_list (map ce_count rs)) * 100)) ?ed
         else [])"
    by (simp add: workload_def entities_data_sum)
  show ?thesis
    unfolding v w i counts
    using entities_data_sorted [of rs] entities_data_mset [of rs] top short wl
    by (auto simp: verdict_parts)
qed

theorem comparison_ranking_witness:
  "entities_data [counted ''B'' 7, counted ''A'' 12] = [(''A'', 12), (''B'', 7)]
   \<and> filter is_verdict (fallback_comparison_response [counted ''A'' 12, counted ''B'' 7])
       = [Winner ''A'' 12, Difference 5 ''B'']
   \<and> filter is_workload (fallback_comparison_response [counted ''A'' 12, counted ''B'' 7])
       = [Workload ''A'' (1200 / 19), Workload ''B'' (700 / 19)]
   \<and> \<bar>1200 / 19 - 63.2\<bar> < (0.05 :: rat) \<and> \<bar>700 / 19 - 36.8\<bar> < (0.05 :: rat)
   \<and> filter is_verdict (fallback_comparison_response [counted ''A'' 0, counted ''B'' 0])
       = [Tied ''A'' ''B'' 0]
   \<and> filter is_workload (fallback_comparison_response [counted ''A'' 0, counted ''B'' 0]) = []
   \<and> fallback_comparison_response [counted ''A'' 12, counted ''B'' 7]
       = [Title, Blank, ResultsSummary, EntityItems ''A'' 12, EntityItems ''B'' 7, Blank,
          Winner ''A'' 12, Difference 5 ''B'', Blank, KeyInsights,
          Workload ''A'' (1200 / 19), Workload ''B'' (700 / 19)]"
proof -
  let ?won = "[counted ''A'' 12, counted ''B'' 7]"
  let ?even = "[counted ''A'' 0, counted ''B'' 0]"
  have full: "fallback_comparison_response ?won
       = [Title, Blank, ResultsSummary, EntityItems ''A'' 12, EntityItems ''B'' 7, Blank,
          Winner ''A'' 12, Difference 5 ''B'', Blank, KeyInsights,
          Workload ''A'' (1200 / 19), Workload ''B'' (700 / 19)]"
    by (simp add: fallback_comparison_response_def data_12_7 verdict_def workload_def)
  have s0: "sum_list (map ce_count ?even) = 0"
    by (simp add: counted_def)
  from comparison_ranking [where rs = ?even]
  have "sum_list (map ce_count ?even) = 0 \<longrightarrow>
          filter is_workload (fallback_comparison_response ?even) = []"
    by blast
  with s0 have none: "filter is_workload (fallback_comparison_response ?even) = []"
    by blast
  from comparison_ranking [where rs = ?even]
  have "\<forall>e1 c1 e2 c2 rest. entities_data ?even = (e1, c1) # (e2, c2) # rest \<longrightarrow>
         c2 \<le> c1
         \<and> (c2 < c1 \<longrightarrow> filter is_verdict (fallback_comparison_response ?even)
                           = [Winner e1 c1, Difference (c1 - c2) e2])
         \<and> (c1 = c2 \<longrightarrow> filter is_verdict (fallback_comparison_response ?even)
                           = [Tied e1 e2 c1])"
    by blast
  with data_0_0 have tie: "filter is_verdict (fallback_comparison_response ?even) = [Tied ''A'' ''B'' 0]"
    by blast
  have approx: "\<bar>1200 / 19 - 63.2\<bar> < (0.05 :: rat) \<and> \<bar>700 / 19 - 36.8\<bar> < (0.05 :: rat)"
    by simp
  show ?thesis
    using data_7_12 none tie approx by (simp add: full)
qed

text \<open>
  The claim C7 as stated fails: the ranking does not go by the number of items fetched.
  Against a remote that serves 50 of the 500 records it declares for Alice, and all 60
  records it declares for Bob, Bob has more fetched items (60 against 50), yet the answer
  names Alice the winner with 500 and a difference of 440.
\<close>

theorem ranking_reads_declared_total_counterexample:
  "map entity (process_comparison capped_remote (Some ''assignee_comparison'')
          [(''entity1'', ''Alice''), (''entity2'', ''Bob'')] [alice_jql, bob_jql])
     = [''Alice'', ''Bob'']
   \<and> map (\<lambda>r. length (ce_results r))
        (process_comparison capped_remote (Some ''assignee_comparison'')
          [(''entity1'', ''Alice''), (''entity2'', ''Bob'')] [alice_jql, bob_jql])
     = [50, 60]
   \<and> map ce_retrieved_count
        (process_comparison capped_remote (Some ''assignee_comparison'')
          [(''entity1'', ''Alice''), (''entity2'', ''Bob'')] [alice_jql, bob_jql])
     = [50, 60]
   \<and> map ce_count
        (process_comparison capped_remote (Some ''assignee_comparison'')
          [(''entity1'', ''Alice''), (''entity2'', ''Bob'')] [alice_jql, bob_jql])
     = [500, 60]
   \<and> filter is_verdict
        (fallback_comparison_response
          (process_comparison capped_remote (Some ''assignee_comparison'')
            [(''entity1'', ''Alice''), (''entity2'', ''Bob'')] [alice_jql, bob_jql]))
     = [Winner ''Alice'' 500, Difference 440 ''Bob'']"
proof -
  let ?batch = "process_comparison capped_remote (Some ''assignee_comparison'')
            [(''entity1'', ''Alice''), (''entity2'', ''Bob'')] [alice_jql, bob_jql]"
  have batch: "?batch =
      [\<lparr>entity = ''Alice'', ce_jql = alice_jql,
        ce_results = replicate 50 (assigned_to ''CCM-1'' ''Alice''),
        ce_count = 500, ce_retrieved_count = 50, ce_error = None\<rparr>,
       \<lparr>entity = ''Bob'', ce_jql = bob_jql,
        ce_results = replicate 60 (assigned_to ''CCM-2'' ''Bob''),
        ce_count = 60, ce_retrieved_count = 60, ce_error = None\<rparr>]"
    by (simp add: process_comparison_def alice_capped bob_uncapped labels)
  have ranked: "entities_data ?batch = [(''Alice'', 500), (''Bob'', 60)]"
    unfolding batch by (simp add: entities_data_def)
  have v: "filter is_verdict (fallback_comparison_response ?batch)
      = [Winner ''Alice'' 500, Difference 440 ''Bob'']"
    by (simp add: fallback_comparison_response_def ranked verdict_def)
  show ?thesis
    unfolding v unfolding batch by simp
qed

lemma comparison_entries_error:
  "ce_error ` set (comparison_entries (\<lambda>jql. Inr (f jql)) ents i jql_list) \<subseteq> {None}"
  by (induction jql_list arbitrary: i) auto

lemma comparison_entries_never_carry_error:
  "list_all (\<lambda>r. ce_error r = None) (process_comparison search query_intent ents jql_list)"
  using comparison_entries_error [of "\<lambda>jql. snd (execute_jql search jql query_intent)" ents 0 jql_list]
  by (auto simp: process_comparison_def list_all_iff)

lemma comparison_entries_length:
  "length (comparison_entries exec ents i jql_list) = length jql_list"
  by (induction jql_list arbitrary: i) auto

lemma alice_down:
  "snd (execute_jql one_entity_down alice_jql (Some ''assignee_comparison''))
     = \<lparr>results = [], total_count = 0, retrieved_count = 0, is_count_only = False,
        error = Some ''ConnectTimeout''\<rparr>"
proof -
  have "fetch_loop one_entity_down alice_jql 0 None [] [] =
          ([page_request alice_jql 0], Inl ''ConnectTimeout'')"
    by (subst fetch_loop.simps) (simp add: one_entity_down_def page_request_def)
  then show ?thesis
    using not_count_alice by (simp add: execute_jql_def error_result_def)
qed

lemma bob_up:
  "snd (execute_jql one_entity_down bob_jql (Some ''assignee_comparison''))
     = \<lparr>results = [assigned_to ''CCM-7'' ''Bob'', assigned_to ''CCM-8'' ''Bob''],
        total_count = 2, retrieved_count = 2, is_count_only = False, error = None\<rparr>"
proof -
  have ne: "bob_jql \<noteq> alice_jql"
    by (simp add: bob_jql_def alice_jql_def)
  have "fetch_loop one_entity_down bob_jql 0 None [] [] =
          ([page_request bob_jql 0],
           Inr ([assigned_to ''CCM-7'' ''Bob'', assigned_to ''CCM-8'' ''Bob''], Some 2))"
    using ne
    by (subst fetch_loop.simps)
       (simp add: one_entity_down_def page_request_def first_total_def get_total_def
          max_results_per_page_def)
  then show ?thesis
    using not_count_bob
    by (simp add: execute_jql_def total_or_len_def has_essential_data_def get_key_def
          assigned_to_def)
qed

lemma alice_absorbed:
  "snd (execute_jql (JiraClient_search one_entity_down_transport) alice_jql
          (Some ''assignee_comparison''))
     = \<lparr>results = [], total_count = 0, retrieved_count = 0, is_count_only = False,
        error = None\<rparr>"
proof -
  have "fetch_loop (JiraClient_search one_entity_down_transport) alice_jql 0 None [] [] =
          ([page_request alice_jql 0], Inr ([], Some 0))"
    by (subst fetch_loop.simps)
       (simp add: JiraClient_search_def one_entity_down_transport_def page_request_def
          empty_page_def first_total_def get_total_def)
  then show ?thesis
    using not_count_alice by (simp add: execute_jql_def total_or_len_def)
qed

lemma bob_served:
  "snd (execute_jql (JiraClient_search one_entity_down_transport) bob_jql
          (Some ''assignee_comparison''))
     = \<lparr>results = [assigned_to ''CCM-7'' ''Bob'', assigned_to ''CCM-8'' ''Bob''],
        total_count = 2, retrieved_count = 2, is_count_only = False, error = None\<rparr>"
proof -
  have ne: "bob_jql \<noteq> alice_jql"
    by (simp add: bob_jql_def alice_jql_def)
  have "fetch_loop (JiraClient_search one_entity_down_transport) bob_jql 0 None [] [] =
          ([page_request bob_jql 0],
           Inr ([assigned_to ''CCM-7'' ''Bob'', assigned_to ''CCM-8'' ''Bob''], Some 2))"
    using ne
    by (subst fetch_loop.simps)
       (simp add: JiraClient_search_def one_entity_down_transport_def page_request_def
          first_total_def get_total_def max_results_per_page_def)
  then show ?thesis
    using not_count_bob
    by (simp add: execute_jql_def total_or_len_def has_essential_data_def get_key_def
          assigned_to_def)
qed

text \<open>
  Claim C8, evaluated at a two-entity comparison in which the remote call for the first
  entity fails: once with \<open>JiraClient.search\<close> on a transport whose GET raises for the first
  query, once with a client whose \<open>search\<close> itself raises for it. In both runs the failed
  entity's entry has no records, count 0 and no error, and the second entity's entry is
  fully populated. In the second run \<open>_execute_jql\<close> does turn the exception into a result
  dict that carries the error, but the entry built from that dict (lines 217-230) copies
  only the records and the two counts. The data summary of the failed entity is the
  \<open>no data found\<close> text, not the error text.
\<close>

theorem failed_entity_carries_no_error:
  "process_comparison (JiraClient_search one_entity_down_transport) (Some ''assignee_comparison'')
       [(''entity1'', ''Alice''), (''entity2'', ''Bob'')] [alice_jql, bob_jql]
     = [\<lparr>entity = ''Alice'', ce_jql = alice_jql, ce_results = [], ce_count = 0,
         ce_retrieved_count = 0, ce_error = None\<rparr>,
        \<lparr>entity = ''Bob'', ce_jql = bob_jql,
         ce_results = [assigned_to ''CCM-7'' ''Bob'', assigned_to ''CCM-8'' ''Bob''],
         ce_count = 2, ce_retrieved_count = 2, ce_error = None\<rparr>]
   \<and> snd (execute_jql one_entity_down alice_jql (Some ''assignee_comparison''))
     = \<lparr>results = [], total_count = 0, retrieved_count = 0, is_count_only = False,
        error = Some ''ConnectTimeout''\<rparr>
   \<and> process_comparison one_entity_down (Some ''assignee_comparison'')
       [(''entity1'', ''Alice''), (''entity2'', ''Bob'')] [alice_jql, bob_jql]
     = [\<lparr>entity = ''Alice'', ce_jql = alice_jql, ce_results = [], ce_count = 0,
         ce_retrieved_count = 0, ce_error = None\<rparr>,
        \<lparr>entity = ''Bob'', ce_jql = bob_jql,
         ce_results = [assigned_to ''CCM-7'' ''Bob'', assigned_to ''CCM-8'' ''Bob''],
         ce_count = 2, ce_retrieved_count = 2, ce_error = None\<rparr>]
   \<and> summarise_entity
        (hd (process_comparison one_entity_down (Some ''assignee_comparison'')
               [(''entity1'', ''Alice''), (''entity2'', ''Bob'')] [alice_jql, bob_jql]))
     = SummaryNoData ''Alice''"
proof -
  have served: "process_comparison (JiraClient_search one_entity_down_transport)
       (Some ''assignee_comparison'')
       [(''entity1'', ''Alice''), (''entity2'', ''Bob'')] [alice_jql, bob_jql]
     = [\<lparr>entity = ''Alice'', ce_jql = alice_jql, ce_results = [], ce_count = 0,
         ce_retrieved_count = 0, ce_error = None\<rparr>,
        \<lparr>entity = ''Bob'', ce_jql = bob_jql,
         ce_results = [assigned_to ''CCM-7'' ''Bob'', assigned_to ''CCM-8'' ''Bob''],
         ce_count = 2, ce_retrieved_count = 2, ce_error = None\<rparr>]"
    by (simp add: process_comparison_def alice_absorbed bob_served labels)
  have raised: "process_comparison one_entity_down (Some ''assignee_comparison'')
       [(''entity1'', ''Alice''), (''entity2'', ''Bob'')] [alice_jql, bob_jql]
     = [\<lparr>entity = ''Alice'', ce_jql = alice_jql, ce_results = [], ce_count = 0,
         ce_retrieved_count = 0, ce_error = None\<rparr>,
        \<lparr>entity = ''Bob'', ce_jql = bob_jql,
         ce_results = [assigned_to ''CCM-7'' ''Bob'', assigned_to ''CCM-8'' ''Bob''],
         ce_count = 2, ce_retrieved_count = 2, ce_error = None\<rparr>]"
    by (simp add: process_comparison_def alice_down bob_up labels)
  show ?thesis
    using alice_down by (simp add: served raised summarise_entity_def)
qed

end
